theory Spec2Isabelle
  imports Complex_Main
begin

section \<open>Water_Analyzer.py: statistics, correlation and lag-window forecast\<close>

text \<open>
  The computational core of \<^verbatim>\<open>StatisticalAnalyzer\<close> in \<^verbatim>\<open>src/Water_Analyzer.py\<close>:
  \<^verbatim>\<open>calculate_statistics\<close>, \<^verbatim>\<open>calculate_correlation\<close> with its three label functions, and
  the data path of \<^verbatim>\<open>open_forecast_plot\<close>. Widgets, message boxes and plotting are left out;
  a message box followed by \<^verbatim>\<open>return\<close> is an error value of the model.

  Numbers. The source computes in IEEE float64 through pandas, numpy and scikit-learn. The
  model adds to the reals the three special values a float64 can take, so that every place
  where the libraries answer \<^verbatim>\<open>nan\<close> or \<^verbatim>\<open>inf\<close> instead of raising is a branch of the
  model. The descriptive statistics and the significance statistic are computed in exact
  real arithmetic; the correlation coefficient and the forecast metrics carry the rounding
  of float64 (see below). Overflow and the sign of zero are not modelled.
\<close>

subsection \<open>Float values with nan and inf\<close>

datatype npfloat = Fin real | PInf | NInf | NaN

fun np_neg :: "npfloat \<Rightarrow> npfloat" where
  "np_neg (Fin x) = Fin (- x)"
| "np_neg PInf = NInf"
| "np_neg NInf = PInf"
| "np_neg NaN = NaN"

fun np_abs :: "npfloat \<Rightarrow> npfloat" where
  "np_abs (Fin x) = Fin \<bar>x\<bar>"
| "np_abs PInf = PInf"
| "np_abs NInf = PInf"
| "np_abs NaN = NaN"

fun np_add :: "npfloat \<Rightarrow> npfloat \<Rightarrow> npfloat" where
  "np_add NaN _ = NaN"
| "np_add _ NaN = NaN"
| "np_add (Fin x) (Fin y) = Fin (x + y)"
| "np_add PInf NInf = NaN"
| "np_add NInf PInf = NaN"
| "np_add PInf _ = PInf"
| "np_add NInf _ = NInf"
| "np_add (Fin x) PInf = PInf"
| "np_add (Fin x) NInf = NInf"

definition np_sub :: "npfloat \<Rightarrow> npfloat \<Rightarrow> npfloat" where
  "np_sub a b = np_add a (np_neg b)"

text \<open>The sign of an infinite product or quotient, from the sign of the finite operand.\<close>

definition signed_inf :: "real \<Rightarrow> npfloat" where
  "signed_inf s = (if 0 < s then PInf else if s < 0 then NInf else NaN)"

fun np_mul :: "npfloat \<Rightarrow> npfloat \<Rightarrow> npfloat" where
  "np_mul NaN _ = NaN"
| "np_mul _ NaN = NaN"
| "np_mul (Fin x) (Fin y) = Fin (x * y)"
| "np_mul (Fin x) PInf = signed_inf x"
| "np_mul (Fin x) NInf = signed_inf (- x)"
| "np_mul PInf (Fin y) = signed_inf y"
| "np_mul NInf (Fin y) = signed_inf (- y)"
| "np_mul PInf PInf = PInf"
| "np_mul NInf NInf = PInf"
| "np_mul PInf NInf = NInf"
| "np_mul NInf PInf = NInf"

text \<open>
  Division of numpy scalars: a nonzero value over zero is an infinity (a warning, which the
  program silences with \<^verbatim>\<open>warnings.filterwarnings('ignore')\<close>), zero over zero is nan.
  The divisor zero is taken as \<^verbatim>\<open>+0.0\<close>.
\<close>

fun np_div :: "npfloat \<Rightarrow> npfloat \<Rightarrow> npfloat" where
  "np_div NaN _ = NaN"
| "np_div _ NaN = NaN"
| "np_div (Fin x) (Fin y) = (if y = 0 then signed_inf x else Fin (x / y))"
| "np_div (Fin x) PInf = Fin 0"
| "np_div (Fin x) NInf = Fin 0"
| "np_div PInf (Fin y) = (if 0 \<le> y then PInf else NInf)"
| "np_div NInf (Fin y) = (if 0 \<le> y then NInf else PInf)"
| "np_div PInf _ = NaN"
| "np_div NInf _ = NaN"

fun np_sqrt :: "npfloat \<Rightarrow> npfloat" where
  "np_sqrt (Fin x) = (if x < 0 then NaN else Fin (sqrt x))"
| "np_sqrt PInf = PInf"
| "np_sqrt NInf = NaN"
| "np_sqrt NaN = NaN"

text \<open>Comparisons with nan are false.\<close>

fun np_gt :: "npfloat \<Rightarrow> real \<Rightarrow> bool" where
  "np_gt (Fin x) c = (c < x)"
| "np_gt PInf c = True"
| "np_gt NInf c = False"
| "np_gt NaN c = False"

fun np_lt :: "npfloat \<Rightarrow> real \<Rightarrow> bool" where
  "np_lt (Fin x) c = (x < c)"
| "np_lt PInf c = False"
| "np_lt NInf c = True"
| "np_lt NaN c = False"

fun np_ge :: "npfloat \<Rightarrow> real \<Rightarrow> bool" where
  "np_ge (Fin x) c = (c \<le> x)"
| "np_ge PInf c = True"
| "np_ge NInf c = False"
| "np_ge NaN c = False"

subsection \<open>Rounding to float64\<close>

text \<open>
  Where the order of the operations decides the last bit of a result, the rounding of
  float64 is part of the model: round to nearest with 53 significant bits, ties to the
  even neighbour. \<open>round64 x\<close> is the float64 nearest to the real \<open>x\<close>; overflow to an
  infinity and the subnormal range are not modelled. It is applied to the square roots and
  the two divisions that end \<^verbatim>\<open>np.corrcoef\<close>, and to every operation of the metrics of
  \<^verbatim>\<open>sklearn.metrics\<close>. The values of a column are float64 numbers, taken as the reals they
  denote.
\<close>

definition round_half_even :: "real \<Rightarrow> int" where
  "round_half_even y =
     (let f = \<lfloor>y\<rfloor>
      in if y - of_int f < 1 / 2 then f
         else if 1 / 2 < y - of_int f then f + 1
         else if even f then f else f + 1)"

definition round64 :: "real \<Rightarrow> real" where
  "round64 x =
     (if x = 0 then 0
      else let e = \<lfloor>log 2 \<bar>x\<bar>\<rfloor> - 52
           in of_int (round_half_even (x / 2 powr of_int e)) * 2 powr of_int e)"

fun np_round :: "npfloat \<Rightarrow> npfloat" where
  "np_round (Fin x) = Fin (round64 x)"
| "np_round v = v"

definition fl_add :: "real \<Rightarrow> real \<Rightarrow> real" where
  "fl_add a b = round64 (a + b)"

definition fl_sub :: "real \<Rightarrow> real \<Rightarrow> real" where
  "fl_sub a b = round64 (a - b)"

definition fl_mul :: "real \<Rightarrow> real \<Rightarrow> real" where
  "fl_mul a b = round64 (a * b)"

definition fl_div :: "real \<Rightarrow> real \<Rightarrow> real" where
  "fl_div a b = round64 (a / b)"

text \<open>
  A sum is accumulated from the left, as numpy does for fewer than eight terms; the mean
  is the sum divided by the count.
\<close>

definition fl_sum :: "real list \<Rightarrow> real" where
  "fl_sum xs = foldl fl_add 0 xs"

definition fl_mean :: "real list \<Rightarrow> real" where
  "fl_mean xs = fl_div (fl_sum xs) (real (length xs))"

subsection \<open>The data frame\<close>

text \<open>
  \<^verbatim>\<open>load_file\<close> accepts a sheet of exactly three columns and renames them to the three
  names below (Russian for Time, Activity, Water volume (l); the strings are their UTF-8
  bytes). It converts the first with \<^verbatim>\<open>pd.to_datetime\<close> (an empty cell is \<^verbatim>\<open>NaT\<close>) and the
  third with \<^verbatim>\<open>pd.to_numeric(errors='coerce')\<close>; the second is kept as read. So a loaded
  frame has a datetime64 column (nanoseconds since the epoch, \<open>None\<close> for \<^verbatim>\<open>NaT\<close>), a column
  of either dtype, and a float column (\<open>None\<close> for \<^verbatim>\<open>NaN\<close>).
\<close>

definition col_time :: string where
  "col_time = [CHR 0xD0, CHR 0x92, CHR 0xD1, CHR 0x80, CHR 0xD0, CHR 0xB5, CHR 0xD0, CHR 0xBC,
               CHR 0xD1, CHR 0x8F]"

definition col_activity :: string where
  "col_activity = [CHR 0xD0, CHR 0x90, CHR 0xD0, CHR 0xBA, CHR 0xD1, CHR 0x82, CHR 0xD0, CHR 0xB8,
                   CHR 0xD0, CHR 0xB2, CHR 0xD0, CHR 0xBD, CHR 0xD0, CHR 0xBE, CHR 0xD1, CHR 0x81,
                   CHR 0xD1, CHR 0x82, CHR 0xD1, CHR 0x8C]"

definition col_volume :: string where
  "col_volume = [CHR 0xD0, CHR 0x9E, CHR 0xD0, CHR 0xB1, CHR 0xD1, CHR 0x8A, CHR 0xD0, CHR 0xB5,
                 CHR 0xD0, CHR 0xBC, CHR 0x20, CHR 0xD0, CHR 0xB2, CHR 0xD0, CHR 0xBE, CHR 0xD0,
                 CHR 0xB4, CHR 0xD1, CHR 0x8B, CHR 0x20, CHR 0x28, CHR 0xD0, CHR 0xBB, CHR 0x29]"

text \<open>A cell of a column: missing, text, or a number.\<close>

datatype cell = NaCell | StrCell string | NumCell real

datatype series =
    DatetimeSeries "int option list"
  | FloatSeries "real option list"
  | ObjectSeries "cell list"

text \<open>The second column as read from the sheet: numbers, or objects (text, numbers, gaps).\<close>

datatype activity = ActivityFloat "real option list" | ActivityObject "cell list"

fun activity_series :: "activity \<Rightarrow> series" where
  "activity_series (ActivityFloat vs) = FloatSeries vs"
| "activity_series (ActivityObject cs) = ObjectSeries cs"

record dataframe =
  time_col :: "int option list"
  activity_col :: activity
  volume_col :: "real option list"

text \<open>\<^verbatim>\<open>column in self.df.columns\<close> and \<^verbatim>\<open>self.df[column]\<close> (\<open>None\<close>: \<^verbatim>\<open>KeyError\<close>).\<close>

definition in_columns :: "dataframe \<Rightarrow> string \<Rightarrow> bool" where
  "in_columns df name = (name = col_time \<or> name = col_activity \<or> name = col_volume)"

definition getitem :: "dataframe \<Rightarrow> string \<Rightarrow> series option" where
  "getitem df name =
     (if name = col_time then Some (DatetimeSeries (time_col df))
      else if name = col_activity then Some (activity_series (activity_col df))
      else if name = col_volume then Some (FloatSeries (volume_col df))
      else None)"

text \<open>\<^verbatim>\<open>Series.dropna()\<close>, \<^verbatim>\<open>len\<close> and \<^verbatim>\<open>pd.api.types.is_numeric_dtype\<close>.\<close>

fun dropna :: "series \<Rightarrow> series" where
  "dropna (DatetimeSeries ts) = DatetimeSeries (filter (\<lambda>t. t \<noteq> None) ts)"
| "dropna (FloatSeries vs) = FloatSeries (filter (\<lambda>v. v \<noteq> None) vs)"
| "dropna (ObjectSeries cs) = ObjectSeries (filter (\<lambda>c. c \<noteq> NaCell) cs)"

fun series_len :: "series \<Rightarrow> nat" where
  "series_len (DatetimeSeries ts) = length ts"
| "series_len (FloatSeries vs) = length vs"
| "series_len (ObjectSeries cs) = length cs"

fun is_numeric_dtype :: "series \<Rightarrow> bool" where
  "is_numeric_dtype (FloatSeries vs) = True"
| "is_numeric_dtype _ = False"

text \<open>The values of a float series without its missing entries.\<close>

fun float_values :: "series \<Rightarrow> real list" where
  "float_values (FloatSeries vs) = map the (filter (\<lambda>v. v \<noteq> None) vs)"
| "float_values _ = []"

subsection \<open>The pandas reductions used by \<^verbatim>\<open>calculate_statistics\<close>\<close>

text \<open>
  Each takes the values left after \<^verbatim>\<open>dropna\<close>. \<^verbatim>\<open>calculate_statistics\<close> raises before
  calling any of them on an empty column, so on \<open>[]\<close> the real-valued ones are never
  evaluated; those that pandas answers with \<^verbatim>\<open>nan\<close> on short input return an \<open>npfloat\<close>.
\<close>

definition series_sum :: "real list \<Rightarrow> real" where
  "series_sum xs = sum_list xs"

definition series_mean :: "real list \<Rightarrow> real" where
  "series_mean xs = sum_list xs / real (length xs)"

fun series_min :: "real list \<Rightarrow> real" where
  "series_min [] = 0"
| "series_min (x # xs) = fold min xs x"

fun series_max :: "real list \<Rightarrow> real" where
  "series_max [] = 0"
| "series_max (x # xs) = fold max xs x"

text \<open>Middle value of the sorted data; the mean of the two middle values for even length.\<close>

definition series_median :: "real list \<Rightarrow> real" where
  "series_median xs =
     (let s = sort xs; n = length s
      in if odd n then s ! (n div 2) else (s ! (n div 2 - 1) + s ! (n div 2)) / 2)"

text \<open>
  \<^verbatim>\<open>Series.quantile(q)\<close>, default \<^verbatim>\<open>interpolation='linear'\<close>: the position \<open>q * (n - 1)\<close> in
  the sorted data, interpolated between its two neighbours.
\<close>

definition series_quantile :: "real list \<Rightarrow> real \<Rightarrow> real" where
  "series_quantile xs q =
     (let s = sort xs; h = q * real (length s - 1); lo = nat \<lfloor>h\<rfloor>; hi = nat \<lceil>h\<rceil>
      in s ! lo + (s ! hi - s ! lo) * (h - real lo))"

text \<open>\<^verbatim>\<open>Series.mode()\<close>: the values of maximal frequency, in ascending order.\<close>

definition series_mode :: "real list \<Rightarrow> real list" where
  "series_mode xs =
     (let vals = remdups (sort xs); m = fold max (map (count_list xs) vals) 0
      in filter (\<lambda>v. count_list xs v = m) vals)"

text \<open>Sum of the \<open>k\<close>-th powers of the deviations from the mean.\<close>

definition central_sum :: "nat \<Rightarrow> real list \<Rightarrow> real" where
  "central_sum k xs = sum_list (map (\<lambda>x. (x - series_mean xs) ^ k) xs)"

text \<open>\<^verbatim>\<open>Series.var(ddof=1)\<close> and \<^verbatim>\<open>Series.std(ddof=1)\<close>: nan when \<open>count \<le> ddof\<close>.\<close>

definition series_var :: "real list \<Rightarrow> npfloat" where
  "series_var xs =
     (if length xs \<le> 1 then NaN else Fin (central_sum 2 xs / real (length xs - 1)))"

definition series_std :: "real list \<Rightarrow> npfloat" where
  "series_std xs = np_sqrt (series_var xs)"

text \<open>
  \<^verbatim>\<open>Series.skew()\<close> and \<^verbatim>\<open>Series.kurtosis()\<close> (pandas \<^verbatim>\<open>nanskew\<close>, \<^verbatim>\<open>nankurt\<close>): the
  bias-adjusted sample skewness and excess kurtosis, with pandas' answers for constant and
  for short data.
\<close>

definition series_skew :: "real list \<Rightarrow> npfloat" where
  "series_skew xs =
     (let n = real (length xs); m2 = central_sum 2 xs; m3 = central_sum 3 xs
      in if length xs < 3 then NaN
         else if m2 = 0 then Fin 0
         else Fin ((n * sqrt (n - 1) / (n - 2)) * (m3 / (m2 powr 1.5))))"

definition series_kurtosis :: "real list \<Rightarrow> npfloat" where
  "series_kurtosis xs =
     (let n = real (length xs); m2 = central_sum 2 xs; m4 = central_sum 4 xs;
          adj = 3 * (n - 1) ^ 2 / ((n - 2) * (n - 3));
          numerator = n * (n + 1) * (n - 1) * m4;
          denominator = (n - 2) * (n - 3) * m2 ^ 2
      in if length xs < 4 then NaN
         else if denominator = 0 then Fin 0
         else Fin (numerator / denominator - adj))"

subsection \<open>\<^verbatim>\<open>calculate_statistics\<close>\<close>

text \<open>
  The result dictionary as a record; a key that the source adds only under a condition is
  an \<open>option\<close> field. The labels of the skewness are the three Russian texts of the source
  (symmetric distribution, moderate asymmetry, strong asymmetry).
\<close>

datatype skew_label = Symmetric | ModerateAsymmetry | StrongAsymmetry

record stat_summary =
  st_count :: nat
  st_median :: real
  st_mean :: real
  st_min :: real
  st_max :: real
  st_sum :: real
  st_range :: real
  st_mode :: "real option"
  st_extra_modes :: "real list option"
  st_q1 :: real
  st_q2 :: real
  st_q3 :: real
  st_iqr :: real
  st_outlier_lower :: real
  st_outlier_upper :: real
  st_mad_mean :: real
  st_mad_median :: real
  st_variance :: npfloat
  st_std :: npfloat
  st_skewness :: "npfloat option"
  st_kurtosis :: "npfloat option"
  st_skew_label :: "skew_label option"
  st_cv :: "npfloat option"

text \<open>
  Every failure inside the \<^verbatim>\<open>try\<close> block is re-raised as
  \<^verbatim>\<open>ValueError("... : " + str(e))\<close>; \<open>Inl e\<close> is that raise, \<open>e\<close> the inner cause.
\<close>

datatype stat_error = ColumnNotFound | NoData | NotNumeric | ConversionFailed

definition skew_interpretation :: "npfloat \<Rightarrow> skew_label" where
  "skew_interpretation skew =
     (if np_lt (np_abs skew) 0.5 then Symmetric
      else if np_ge (np_abs skew) 0.5 \<and> np_lt (np_abs skew) 1 then ModerateAsymmetry
      else StrongAsymmetry)"

definition summary :: "real list \<Rightarrow> stat_summary" where
  "summary data =
     (let modes = series_mode data;
          q1 = series_quantile data 0.25;
          q2 = series_quantile data 0.50;
          q3 = series_quantile data 0.75;
          iqr = q3 - q1;
          mean = series_mean data;
          std = series_std data;
          shape = 2 < length data;
          skew = series_skew data
      in \<lparr> st_count = length data,
           st_median = series_median data,
           st_mean = mean,
           st_min = series_min data,
           st_max = series_max data,
           st_sum = series_sum data,
           st_range = series_max data - series_min data,
           st_mode = (if modes = [] then None else Some (hd modes)),
           st_extra_modes = (if 1 < length modes then Some (tl modes) else None),
           st_q1 = q1,
           st_q2 = q2,
           st_q3 = q3,
           st_iqr = iqr,
           st_outlier_lower = q1 - 1.5 * iqr,
           st_outlier_upper = q3 + 1.5 * iqr,
           st_mad_mean = series_mean (map (\<lambda>x. \<bar>x - series_mean data\<bar>) data),
           st_mad_median = series_median (map (\<lambda>x. \<bar>x - series_median data\<bar>) data),
           st_variance = series_var data,
           st_std = std,
           st_skewness = (if shape then Some skew else None),
           st_kurtosis = (if shape then Some (series_kurtosis data) else None),
           st_skew_label = (if shape then Some (skew_interpretation skew) else None),
           st_cv = (if mean \<noteq> 0 then Some (np_mul (np_div std (Fin mean)) (Fin 100)) else None) \<rparr>)"

definition calculate_statistics :: "dataframe \<Rightarrow> string \<Rightarrow> stat_error + stat_summary" where
  "calculate_statistics df column =
     (case (if in_columns df column then getitem df column else None) of
        None \<Rightarrow> Inl ColumnNotFound
      | Some col \<Rightarrow>
          let data = dropna col
          in if series_len data = 0 then Inl NoData
             else if \<not> is_numeric_dtype data then Inl NotNumeric
             else let data_numeric = float_values data
                  in if length data_numeric = 0 then Inl ConversionFailed
                     else Inr (summary data_numeric))"

subsection \<open>Labels of a correlation coefficient\<close>

text \<open>
  The three label functions return Russian texts; each text is a constructor here, in the
  order of the source's branches. \<open>r\<close> is the numpy float that \<^verbatim>\<open>Series.corr\<close> returned,
  which is nan when a column is constant.
\<close>

datatype strength = VeryStrong | Strong | Moderate | Weak | VeryWeakOrNone

definition interpret_correlation :: "npfloat \<Rightarrow> strength" where
  "interpret_correlation r =
     (let r_abs = np_abs r
      in if np_ge r_abs 0.9 then VeryStrong
         else if np_ge r_abs 0.7 then Strong
         else if np_ge r_abs 0.5 then Moderate
         else if np_ge r_abs 0.3 then Weak
         else VeryWeakOrNone)"

datatype dependence =
    NearlyLinear | StrongDependence | NoticeableDependence | WeakDependence
  | VeryWeakDependence | NoSignificantRelation

definition get_correlation_interpretation :: "npfloat \<Rightarrow> dependence" where
  "get_correlation_interpretation r =
     (let r_abs = np_abs r
      in if np_ge r_abs 0.9 then NearlyLinear
         else if np_ge r_abs 0.7 then StrongDependence
         else if np_ge r_abs 0.5 then NoticeableDependence
         else if np_ge r_abs 0.3 then WeakDependence
         else if np_ge r_abs 0.1 then VeryWeakDependence
         else NoSignificantRelation)"

text \<open>
  \<^verbatim>\<open>estimate_p_value\<close>. The texts are \<^verbatim>\<open>"< 0.001 (...)"\<close>, \<^verbatim>\<open>"< 0.01 (...)"\<close>,
  \<^verbatim>\<open>"< 0.05 (...)"\<close>, \<^verbatim>\<open>"> 0.05 (...)"\<close> and, for \<open>n \<le> 2\<close>, a text saying that the data
  are insufficient. Only \<open>r = 1\<close> is tested before the formula; at \<open>r = -1\<close> the formula
  itself divides \<open>n - 2\<close> by the numpy zero \<open>1 - r ** 2\<close>.
\<close>

datatype significance =
    InsufficientPairs | HighlySignificant | Significant | ModeratelySignificant | NotSignificant

definition t_statistic :: "npfloat \<Rightarrow> nat \<Rightarrow> npfloat" where
  "t_statistic r n =
     (if r \<noteq> Fin 1
      then np_mul (np_abs r)
             (np_sqrt (np_div (Fin (real n - 2)) (np_sub (Fin 1) (np_mul r r))))
      else PInf)"

definition estimate_p_value :: "npfloat \<Rightarrow> nat \<Rightarrow> significance" where
  "estimate_p_value r n =
     (if n \<le> 2 then InsufficientPairs
      else let t_stat = t_statistic r n
           in if np_gt t_stat 3.5 then HighlySignificant
              else if np_gt t_stat 2.6 then Significant
              else if np_gt t_stat 1.96 then ModeratelySignificant
              else NotSignificant)"

subsection \<open>Pearson's coefficient as \<^verbatim>\<open>Series.corr\<close> computes it\<close>

text \<open>
  \<^verbatim>\<open>np.corrcoef\<close>: the covariance matrix with \<open>n - 1\<close> in the denominator,
  \<^verbatim>\<open>stddev = sqrt(diag(c))\<close>, then \<^verbatim>\<open>c /= stddev[:, None]\<close>, \<^verbatim>\<open>c /= stddev[None, :]\<close> and a
  clip to \<open>[-1, 1]\<close>. The coefficient of \<open>(xs, ys)\<close> is the entry \<open>c[0, 1]\<close>: the covariance
  is divided by the deviation of \<open>xs\<close> first and by that of \<open>ys\<close> second, and each of the
  two quotients is rounded. The sums and products that form the covariance are taken
  exact: they are the same numbers for \<open>(xs, ys)\<close> and for \<open>(ys, xs)\<close>.
\<close>

definition covariance :: "real list \<Rightarrow> real list \<Rightarrow> real" where
  "covariance xs ys =
     sum_list (map2 (\<lambda>x y. (x - series_mean xs) * (y - series_mean ys)) xs ys)
       / real (length xs - 1)"

fun np_clip :: "npfloat \<Rightarrow> npfloat" where
  "np_clip (Fin x) = Fin (min 1 (max (- 1) x))"
| "np_clip PInf = Fin 1"
| "np_clip NInf = Fin (- 1)"
| "np_clip NaN = NaN"

definition stddev :: "real list \<Rightarrow> real" where
  "stddev xs = round64 (sqrt (covariance xs xs))"

definition corr_quotient :: "real \<Rightarrow> real \<Rightarrow> real \<Rightarrow> npfloat" where
  "corr_quotient c s0 s1 =
     np_clip (np_round (np_div (np_round (np_div (Fin c) (Fin s0))) (Fin s1)))"

definition np_corrcoef :: "real list \<Rightarrow> real list \<Rightarrow> npfloat" where
  "np_corrcoef xs ys =
     (if length xs < 2 then NaN
      else corr_quotient (covariance xs ys) (stddev xs) (stddev ys))"

text \<open>
  What the correlation can raise: \<^verbatim>\<open>KeyError\<close> from \<^verbatim>\<open>self.df[col]\<close>, and the \<^verbatim>\<open>ValueError\<close>
  of converting a text cell to float. The parameter \<open>parse\<close> is Python's \<^verbatim>\<open>float(str)\<close>
  on the texts that denote a finite number.
\<close>

datatype exc = KeyError string | ValueError string

fun cell_to_float :: "(string \<Rightarrow> real option) \<Rightarrow> cell \<Rightarrow> exc + real option" where
  "cell_to_float parse NaCell = Inr None"
| "cell_to_float parse (NumCell v) = Inr (Some v)"
| "cell_to_float parse (StrCell t) =
     (case parse t of None \<Rightarrow> Inl (ValueError t) | Some v \<Rightarrow> Inr (Some v))"

text \<open>\<^verbatim>\<open>to_numpy(dtype=float, na_value=np.nan)\<close>: the first cell that fails raises.\<close>

fun to_numpy_float :: "(string \<Rightarrow> real option) \<Rightarrow> cell list \<Rightarrow> exc + real option list" where
  "to_numpy_float parse [] = Inr []"
| "to_numpy_float parse (c # cs) =
     (case cell_to_float parse c of
        Inl e \<Rightarrow> Inl e
      | Inr v \<Rightarrow> (case to_numpy_float parse cs of Inl e \<Rightarrow> Inl e | Inr vs \<Rightarrow> Inr (v # vs)))"

text \<open>
  \<^verbatim>\<open>Series.corr(other)\<close>, method Pearson, \<^verbatim>\<open>min_periods\<close> 1: both sides to float, the pairs
  with a nan dropped, nan if none is left.
\<close>

definition series_corr ::
  "(string \<Rightarrow> real option) \<Rightarrow> cell list \<Rightarrow> cell list \<Rightarrow> exc + npfloat" where
  "series_corr parse this other =
     (case to_numpy_float parse this of
        Inl e \<Rightarrow> Inl e
      | Inr this_values \<Rightarrow>
          (case to_numpy_float parse other of
             Inl e \<Rightarrow> Inl e
           | Inr other_values \<Rightarrow>
               let valid = filter (\<lambda>(a, b). a \<noteq> None \<and> b \<noteq> None) (zip this_values other_values)
               in if length valid < 1 then Inr NaN
                  else Inr (np_corrcoef (map (the \<circ> fst) valid) (map (the \<circ> snd) valid))))"

subsection \<open>\<^verbatim>\<open>calculate_correlation\<close>\<close>

text \<open>
  \<^verbatim>\<open>pd.to_numeric\<close> of a datetime64 series reinterprets the stored 64-bit integers
  (\<^verbatim>\<open>values.view(np.int64)\<close>): a timestamp becomes its nanoseconds since the epoch and
  \<^verbatim>\<open>NaT\<close> becomes the smallest int64. The result is an integer series with no missing entry.
\<close>

definition iNaT :: int where
  "iNaT = - 9223372036854775808"

definition to_numeric_datetime :: "int option list \<Rightarrow> cell list" where
  "to_numeric_datetime ts =
     map (\<lambda>t. NumCell (real_of_int (case t of None \<Rightarrow> iNaT | Some ns \<Rightarrow> ns))) ts"

fun series_cells :: "series \<Rightarrow> cell list" where
  "series_cells (FloatSeries vs) = map (\<lambda>v. case v of None \<Rightarrow> NaCell | Some x \<Rightarrow> NumCell x) vs"
| "series_cells (ObjectSeries cs) = cs"
| "series_cells (DatetimeSeries ts) =
     map (\<lambda>t. case t of None \<Rightarrow> NaCell | Some ns \<Rightarrow> NumCell (real_of_int ns)) ts"

text \<open>
  The two branches that prepare \<^verbatim>\<open>data1\<close> and \<^verbatim>\<open>data2\<close>: the same code for either
  argument. In the second branch the name is not the time column's.
\<close>

definition corr_data :: "dataframe \<Rightarrow> string \<Rightarrow> exc + cell list" where
  "corr_data df col =
     (if col = col_time then Inr (to_numeric_datetime (time_col df))
      else case getitem df col of
             None \<Rightarrow> Inl (KeyError col)
           | Some s \<Rightarrow> Inr (series_cells s))"

datatype corr_message = NoColumnsSelected | NotEnoughData | ExceptionText exc

record corr_record =
  cr_col1 :: string
  cr_col2 :: string
  cr_r :: npfloat
  cr_strength :: strength
  cr_interpretation :: dependence
  cr_n_pairs :: nat
  cr_p_value :: significance

datatype corr_result = CorrError corr_message | CorrOk corr_record

text \<open>\<^verbatim>\<open>data1.notna() & data2.notna()\<close> and the two masked series.\<close>

definition clean_pairs :: "cell list \<Rightarrow> cell list \<Rightarrow> (cell \<times> cell) list" where
  "clean_pairs data1 data2 = filter (\<lambda>(a, b). a \<noteq> NaCell \<and> b \<noteq> NaCell) (zip data1 data2)"

text \<open>The body of the \<^verbatim>\<open>try\<close> block; \<open>Inl\<close> is an exception raised inside it.\<close>

definition correlation_body ::
  "(string \<Rightarrow> real option) \<Rightarrow> dataframe \<Rightarrow> string \<Rightarrow> string \<Rightarrow> exc + corr_result" where
  "correlation_body parse df col1 col2 =
     (if col1 = [] \<or> col2 = [] then Inr (CorrError NoColumnsSelected)
      else case corr_data df col1 of
        Inl e \<Rightarrow> Inl e
      | Inr data1 \<Rightarrow>
          (case corr_data df col2 of
             Inl e \<Rightarrow> Inl e
           | Inr data2 \<Rightarrow>
               let data1_clean = map fst (clean_pairs data1 data2);
                   data2_clean = map snd (clean_pairs data1 data2)
               in if length data1_clean < 2 then Inr (CorrError NotEnoughData)
                  else (case series_corr parse data1_clean data2_clean of
                          Inl e \<Rightarrow> Inl e
                        | Inr correlation \<Rightarrow>
                            Inr (CorrOk \<lparr> cr_col1 = col1,
                                          cr_col2 = col2,
                                          cr_r = correlation,
                                          cr_strength = interpret_correlation correlation,
                                          cr_interpretation =
                                            get_correlation_interpretation correlation,
                                          cr_n_pairs = length data1_clean,
                                          cr_p_value =
                                            estimate_p_value correlation (length data1_clean) \<rparr>))))"

text \<open>
  \<^verbatim>\<open>try: ... except Exception as e: return {error: str(e)}\<close>. The result keeps the type of
  a computation that may raise, so that not raising is a statement about the function.
\<close>

definition calculate_correlation ::
  "(string \<Rightarrow> real option) \<Rightarrow> dataframe \<Rightarrow> string \<Rightarrow> string \<Rightarrow> exc + corr_result" where
  "calculate_correlation parse df col1 col2 =
     (case correlation_body parse df col1 col2 of
        Inl e \<Rightarrow> Inr (CorrError (ExceptionText e))
      | Inr res \<Rightarrow> Inr res)"

subsection \<open>The forecast: lag features, chronological split, metrics\<close>

text \<open>
  \<^verbatim>\<open>validate_numeric_column\<close> shows a warning and returns \<^verbatim>\<open>False\<close> when the column is
  unknown, not numeric, or has no value.
\<close>

definition validate_numeric_column :: "dataframe \<Rightarrow> string \<Rightarrow> bool" where
  "validate_numeric_column df column_name =
     (if \<not> in_columns df column_name then False
      else case getitem df column_name of
             None \<Rightarrow> False
           | Some col \<Rightarrow>
               if \<not> is_numeric_dtype col then False
               else if series_len (dropna col) = 0 then False
               else True)"

text \<open>
  What can be raised inside the \<^verbatim>\<open>try\<close> block of \<^verbatim>\<open>open_forecast_plot\<close>: the \<^verbatim>\<open>ValueError\<close>
  of \<^verbatim>\<open>train_test_split\<close> for an empty train set, whatever the regressor raises, and the
  \<^verbatim>\<open>ValueError\<close> of the metrics for targets of different lengths. The block reports any of
  them in a message box. \<open>InsufficientData m\<close> is the warning that asks for \<open>m\<close> values.
\<close>

datatype forecast_exc = EmptyTrainSet | RegressorError string | InconsistentLengths

datatype forecast_error = ValidationFailed | InsufficientData nat | ForecastFailed forecast_exc

text \<open>
  The loop
  \<^verbatim>\<open>for i in range(len(data) - lag): X.append(data[i:i + lag]); y.append(data[i + lag])\<close>.
  An empty \<^verbatim>\<open>range\<close> for \<open>len(data) \<le> lag\<close> is the truncated subtraction.
\<close>

definition lag_loop :: "real list \<Rightarrow> nat \<Rightarrow> real list list \<times> real list" where
  "lag_loop data lag =
     fold (\<lambda>i (X, y). (X @ [take lag (drop i data)], y @ [data ! (i + lag)]))
          [0 ..< length data - lag] ([], [])"

text \<open>The length check and the loop: from \<^verbatim>\<open>data\<close> to \<^verbatim>\<open>X, y\<close>.\<close>

definition build_lag_features ::
  "real list \<Rightarrow> nat \<Rightarrow> forecast_error + (real list list \<times> real list)" where
  "build_lag_features data lag =
     (if length data < lag * 2 then Inl (InsufficientData (lag * 2))
      else Inr (lag_loop data lag))"

text \<open>
  \<^verbatim>\<open>train_test_split(X, y, test_size=0.2, random_state=42, shuffle=False)\<close> of scikit-learn:
  \<open>n_test = ceil(test_size * n_samples)\<close>, \<open>n_train = n_samples - n_test\<close>, an error if the
  train set would be empty; without shuffling the train rows are the first \<open>n_train\<close> and
  the test rows the \<open>n_test\<close> after them.
\<close>

definition n_test_of :: "nat \<Rightarrow> nat" where
  "n_test_of n_samples = nat \<lceil>0.2 * real n_samples\<rceil>"

definition train_test_split ::
  "real list list \<Rightarrow> real list \<Rightarrow>
     forecast_exc + (real list list \<times> real list list \<times> real list \<times> real list)" where
  "train_test_split X y =
     (let n_samples = length X; n_test = n_test_of n_samples; n_train = n_samples - n_test
      in if n_train = 0 then Inl EmptyTrainSet
         else Inr (take n_train X, take n_test (drop n_train X),
                   take n_train y, take n_test (drop n_train y)))"

text \<open>
  The metrics of \<^verbatim>\<open>sklearn.metrics\<close>, in float64. \<^verbatim>\<open>r2_score\<close> tests the computed total
  sum of squares against zero: when it is zero the score is 1 if the computed residual sum
  is zero too and 0 otherwise; for fewer than two samples the score is nan (with a
  warning).
\<close>

definition mean_absolute_error :: "real list \<Rightarrow> real list \<Rightarrow> real" where
  "mean_absolute_error y_true y_pred = fl_mean (map2 (\<lambda>t p. \<bar>fl_sub p t\<bar>) y_true y_pred)"

definition mean_squared_error :: "real list \<Rightarrow> real list \<Rightarrow> real" where
  "mean_squared_error y_true y_pred =
     fl_mean (map2 (\<lambda>t p. fl_mul (fl_sub t p) (fl_sub t p)) y_true y_pred)"

definition ss_res :: "real list \<Rightarrow> real list \<Rightarrow> real" where
  "ss_res y_true y_pred =
     fl_sum (map2 (\<lambda>t p. fl_mul (fl_sub t p) (fl_sub t p)) y_true y_pred)"

definition ss_tot :: "real list \<Rightarrow> real" where
  "ss_tot y_true =
     fl_sum (map (\<lambda>t. fl_mul (fl_sub t (fl_mean y_true)) (fl_sub t (fl_mean y_true))) y_true)"

definition r2_score :: "real list \<Rightarrow> real list \<Rightarrow> npfloat" where
  "r2_score y_true y_pred =
     (let numerator = ss_res y_true y_pred; denominator = ss_tot y_true
      in if length y_true < 2 then NaN
         else if denominator \<noteq> 0 then Fin (fl_sub 1 (fl_div numerator denominator))
         else if numerator \<noteq> 0 then Fin 0
         else Fin 1)"

text \<open>
  A regressor is \<^verbatim>\<open>model.fit(X_train, y_train)\<close> followed by \<^verbatim>\<open>model.predict(X_test)\<close>:
  any function from the three arrays to the predictions or to an exception.
\<close>

type_synonym regressor =
  "real list list \<Rightarrow> real list \<Rightarrow> real list list \<Rightarrow> forecast_exc + real list"

record forecast_run =
  fr_model_name :: string
  fr_column :: string
  fr_lag :: nat
  fr_y_test :: "real list"
  fr_y_pred :: "real list"
  fr_mae :: real
  fr_rmse :: real
  fr_r2 :: npfloat

text \<open>From the split to the values handed to the plot; \<open>Inl\<close> is a raised exception.\<close>

definition fit_and_score ::
  "string \<Rightarrow> regressor \<Rightarrow> string \<Rightarrow> nat \<Rightarrow> real list list \<Rightarrow> real list \<Rightarrow>
     forecast_exc + forecast_run" where
  "fit_and_score model_name model column lag X y =
     (case train_test_split X y of
        Inl e \<Rightarrow> Inl e
      | Inr (X_train, X_test, y_train, y_test) \<Rightarrow>
          (case model X_train y_train X_test of
             Inl e \<Rightarrow> Inl e
           | Inr y_pred \<Rightarrow>
               if length y_pred \<noteq> length y_test then Inl InconsistentLengths
               else Inr \<lparr> fr_model_name = model_name,
                          fr_column = column,
                          fr_lag = lag,
                          fr_y_test = y_test,
                          fr_y_pred = y_pred,
                          fr_mae = mean_absolute_error y_test y_pred,
                          fr_rmse = round64 (sqrt (mean_squared_error y_test y_pred)),
                          fr_r2 = r2_score y_test y_pred \<rparr>))"

text \<open>
  \<^verbatim>\<open>open_forecast_plot\<close>; \<open>column\<close> is the text of the column selector. \<open>Inr\<close> is the run
  that is plotted, \<open>Inl\<close> a message box and no plot.
\<close>

definition open_forecast_plot ::
  "string \<Rightarrow> regressor \<Rightarrow> dataframe \<Rightarrow> string \<Rightarrow> nat \<Rightarrow> forecast_error + forecast_run" where
  "open_forecast_plot model_name model df column lag =
     (if \<not> validate_numeric_column df column then Inl ValidationFailed
      else case getitem df column of
             None \<Rightarrow> Inl ValidationFailed
           | Some col \<Rightarrow>
               (case build_lag_features (float_values (dropna col)) lag of
                  Inl w \<Rightarrow> Inl w
                | Inr (X, y) \<Rightarrow>
                    (case fit_and_score model_name model column lag X y of
                       Inl e \<Rightarrow> Inl (ForecastFailed e)
                     | Inr run \<Rightarrow> Inr run)))"

subsection \<open>The significance label in the words of the specification\<close>

text \<open>
  The specification gives the label from \<open>t = |r| * sqrt((n - 2) / (1 - r\<^sup>2))\<close>, with \<open>t\<close>
  infinite at \<open>r = 1\<close> and at \<open>r = -1\<close>: above 3.5, above 2.6, above 1.96, otherwise.
  \<open>None\<close> is the infinite \<open>t\<close>.
\<close>

definition spec_t :: "real \<Rightarrow> nat \<Rightarrow> real option" where
  "spec_t r n =
     (if r = 1 \<or> r = - 1 then None else Some (\<bar>r\<bar> * sqrt ((real n - 2) / (1 - r\<^sup>2))))"

definition spec_significance :: "real \<Rightarrow> nat \<Rightarrow> significance" where
  "spec_significance r n =
     (case spec_t r n of
        None \<Rightarrow> HighlySignificant
      | Some t \<Rightarrow>
          if 3.5 < t then HighlySignificant
          else if 2.6 < t then Significant
          else if 1.96 < t then ModeratelySignificant
          else NotSignificant)"

subsection \<open>Inputs of the scenarios\<close>

text \<open>Fourteen points, for a lag of 7: seven rows of seven values, seven labels.\<close>

definition scenario_D_series :: "real list" where
  "scenario_D_series = [1, 2, 3, 4, 5, 6, 7, 8, 9, 10, 11, 12, 13, 14]"


text \<open>
  \<^verbatim>\<open>float(t)\<close> on a sheet none of whose text cells denotes a number: it fails for every
  text.
\<close>

definition no_float_text :: "string \<Rightarrow> real option" where
  "no_float_text t = None"


section \<open>Properties\<close>

subsection \<open>Auxiliary facts\<close>

lemma col_names_distinct:
  "col_volume \<noteq> col_time" "col_volume \<noteq> col_activity" "col_activity \<noteq> col_time"
  "col_time \<noteq> []" "col_activity \<noteq> []" "col_volume \<noteq> []"
  by (simp_all add: col_volume_def col_time_def col_activity_def)

lemma fold_append_pair:
  "fold (\<lambda>i (X, y). (X @ [f i], y @ [g i])) is (X0, y0) = (X0 @ map f is, y0 @ map g is)"
  by (induction "is" arbitrary: X0 y0) simp_all

lemma lag_loop_map:
  "lag_loop data lag =
     (map (\<lambda>i. take lag (drop i data)) [0 ..< length data - lag],
      map (\<lambda>i. data ! (i + lag)) [0 ..< length data - lag])"
  unfolding lag_loop_def by (simp add: fold_append_pair)

lemma lag_row:
  assumes "i < length data - lag"
  shows "length (fst (lag_loop data lag) ! i) = lag"
    and "j < lag \<Longrightarrow> fst (lag_loop data lag) ! i ! j = data ! (i + j)"
    and "snd (lag_loop data lag) ! i = data ! (i + lag)"
  using assms by (simp_all add: lag_loop_map)

lemma lag_features_long:
  assumes "2 * lag \<le> length series"
  shows "\<exists>X y. build_lag_features series lag = Inr (X, y)
           \<and> length X = length series - lag \<and> length y = length series - lag
           \<and> (\<forall>i < length series - lag.
                 length (X ! i) = lag
               \<and> (\<forall>j < lag. X ! i ! j = series ! (i + j))
               \<and> y ! i = series ! (i + lag))"
proof -
  let ?X = "fst (lag_loop series lag)" and ?y = "snd (lag_loop series lag)"
  have "build_lag_features series lag = Inr (?X, ?y)"
    using assms by (simp add: build_lag_features_def)
  moreover have "length ?X = length series - lag" "length ?y = length series - lag"
    by (simp_all add: lag_loop_map)
  moreover have "\<forall>i < length series - lag.
      length (?X ! i) = lag \<and> (\<forall>j < lag. ?X ! i ! j = series ! (i + j))
      \<and> ?y ! i = series ! (i + lag)"
    using lag_row by blast
  ultimately show ?thesis by blast
qed

lemma lag_features_short:
  assumes "length series < 2 * lag"
  shows "build_lag_features series lag = Inl (InsufficientData (2 * lag))"
  using assms by (simp add: build_lag_features_def mult.commute)

lemma statistics_float_column:
  assumes "getitem df column = Some (FloatSeries vs)"
  shows "calculate_statistics df column =
           (if filter (\<lambda>v. v \<noteq> None) vs = [] then Inl NoData
            else Inr (summary (map the (filter (\<lambda>v. v \<noteq> None) vs))))"
proof -
  have "in_columns df column"
    using assms by (auto simp: getitem_def in_columns_def split: if_splits)
  then show ?thesis
    using assms by (simp add: calculate_statistics_def Let_def)
qed

subsection \<open>Facts about rounding\<close>

lemma round_half_even_unique:
  assumes "of_int M - 1 / 2 < y" "y < of_int M + 1 / 2"
  shows "round_half_even y = M"
proof (cases "of_int M \<le> y")
  case True
  then have "\<lfloor>y\<rfloor> = M"
    using assms(2) by (intro floor_unique) linarith+
  then show ?thesis
    using assms(2) by (simp add: round_half_even_def Let_def)
next
  case False
  then have f: "\<lfloor>y\<rfloor> = M - 1"
    using assms(1) by (intro floor_unique) (simp, linarith)
  have "\<not> y - of_int (M - 1) < 1 / 2" "1 / 2 < y - of_int (M - 1)"
    using assms(1) by simp_all
  then show ?thesis
    unfolding round_half_even_def Let_def f by simp
qed

lemma round_half_even_of_int [simp]: "round_half_even (of_int k) = k"
  by (rule round_half_even_unique) simp_all

lemma round_half_even_error: "\<bar>of_int (round_half_even y) - y\<bar> \<le> 1 / 2"
proof -
  have "of_int \<lfloor>y\<rfloor> \<le> y" "y < of_int \<lfloor>y\<rfloor> + 1"
    by linarith+
  then show ?thesis
    unfolding round_half_even_def Let_def by (auto simp: abs_le_iff)
qed

lemma round_half_even_tie:
  "round_half_even (of_int k + 1 / 2) = (if even k then k else k + 1)"
proof -
  have "\<lfloor>of_int k + 1 / 2 :: real\<rfloor> = k"
    by (intro floor_unique) simp_all
  then show ?thesis
    by (simp add: round_half_even_def Let_def)
qed

lemma round_half_even_minus: "round_half_even (- y) = - round_half_even y"
proof (cases "y = of_int \<lfloor>y\<rfloor>")
  case True
  then obtain k where "y = of_int k" by metis
  then show ?thesis
    by (simp flip: of_int_minus)
next
  case False
  define f where "f = \<lfloor>y\<rfloor>"
  have lt: "of_int f < y" "y < of_int f + 1"
    using False unfolding f_def by linarith+
  have fm: "\<lfloor>- y\<rfloor> = - f - 1"
    using lt by (intro floor_unique) simp_all
  consider "y - of_int f < 1 / 2" | "1 / 2 < y - of_int f" | "y - of_int f = 1 / 2"
    by linarith
  then show ?thesis
  proof cases
    case 1
    then have "round_half_even y = f"
      by (simp add: round_half_even_def f_def)
    moreover have "round_half_even (- y) = - f"
      using 1 lt by (intro round_half_even_unique) simp_all
    ultimately show ?thesis by simp
  next
    case 2
    then have "round_half_even y = f + 1"
      by (simp add: round_half_even_def f_def)
    moreover have "round_half_even (- y) = - f - 1"
      using 2 lt by (intro round_half_even_unique) simp_all
    ultimately show ?thesis by simp
  next
    case 3
    then have a: "round_half_even y = (if even f then f else f + 1)"
      by (simp add: round_half_even_def f_def)
    have "- y - of_int (- f - 1) = 1 / 2"
      using 3 by simp
    then have b: "round_half_even (- y) = (if even (- f - 1) then - f - 1 else - f)"
      unfolding round_half_even_def Let_def fm by simp
    show ?thesis
      unfolding a b by simp
  qed
qed

lemma floor_log2_scaled:
  assumes "2 ^ 52 \<le> \<bar>m\<bar>" "\<bar>m\<bar> < 2 ^ 53"
  shows "\<lfloor>log 2 \<bar>m * 2 powr of_int e\<bar>\<rfloor> = 52 + e"
proof -
  have pos: "0 < \<bar>m\<bar>" using assms(1) by (smt (verit) zero_less_power)
  have "\<bar>m * 2 powr of_int e\<bar> = \<bar>m\<bar> * 2 powr of_int e"
    by (simp add: abs_mult)
  then have "log 2 \<bar>m * 2 powr of_int e\<bar> = log 2 \<bar>m\<bar> + of_int e"
    using pos by (simp add: log_mult)
  moreover have "\<lfloor>log 2 \<bar>m\<bar>\<rfloor> = 52"
  proof -
    have "2 powr of_int 52 \<le> \<bar>m\<bar> \<and> \<bar>m\<bar> < 2 powr (of_int 52 + 1)"
      using assms by (simp add: powr_numeral)
    then show ?thesis
      using pos floor_log_eq_powr_iff [of "\<bar>m\<bar>" 2 52] by simp
  qed
  ultimately show ?thesis
    by simp
qed

lemma round64_scaled:
  assumes "2 ^ 52 \<le> \<bar>m\<bar>" "\<bar>m\<bar> < 2 ^ 53"
  shows "round64 (m * 2 powr of_int e) = of_int (round_half_even m) * 2 powr of_int e"
proof -
  have nz: "m * 2 powr of_int e \<noteq> 0"
    using assms(1) by auto
  show ?thesis
    unfolding round64_def Let_def floor_log2_scaled [OF assms]
    using nz by simp
qed

lemma round64_eval_div:
  assumes "2 ^ 52 \<le> \<bar>x * 2 ^ n\<bar>" "\<bar>x * 2 ^ n\<bar> < 2 ^ 53"
    and "of_int M - 1 / 2 < x * 2 ^ n" "x * 2 ^ n < of_int M + 1 / 2"
  shows "round64 x = of_int M / 2 ^ n"
proof -
  have p: "2 powr of_int (- int n) = 1 / (2::real) ^ n"
    by (simp add: powr_minus powr_realpow divide_inverse)
  have "round64 ((x * 2 ^ n) * 2 powr of_int (- int n))
          = of_int (round_half_even (x * 2 ^ n)) * 2 powr of_int (- int n)"
    using assms(1,2) by (rule round64_scaled)
  then show ?thesis
    unfolding p round_half_even_unique [OF assms(3,4)] by simp
qed

lemma round64_eval_mul:
  assumes "2 ^ 52 \<le> \<bar>x / 2 ^ n\<bar>" "\<bar>x / 2 ^ n\<bar> < 2 ^ 53"
    and "of_int M - 1 / 2 < x / 2 ^ n" "x / 2 ^ n < of_int M + 1 / 2"
  shows "round64 x = of_int M * 2 ^ n"
proof -
  have p: "2 powr of_int (int n) = (2::real) ^ n"
    by (simp add: powr_realpow)
  have "round64 ((x / 2 ^ n) * 2 powr of_int (int n))
          = of_int (round_half_even (x / 2 ^ n)) * 2 powr of_int (int n)"
    using assms(1,2) by (rule round64_scaled)
  then show ?thesis
    unfolding p round_half_even_unique [OF assms(3,4)] by simp
qed

lemma round64_tie_div:
  assumes "2 ^ 52 \<le> \<bar>x * 2 ^ n\<bar>" "\<bar>x * 2 ^ n\<bar> < 2 ^ 53"
    and "x * 2 ^ n = of_int k + 1 / 2"
  shows "round64 x = of_int (if even k then k else k + 1) / 2 ^ n"
proof -
  have p: "2 powr of_int (- int n) = 1 / (2::real) ^ n"
    by (simp add: powr_minus powr_realpow divide_inverse)
  have a: "round64 ((x * 2 ^ n) * 2 powr of_int (- int n))
          = of_int (round_half_even (x * 2 ^ n)) * 2 powr of_int (- int n)"
    using assms(1,2) by (rule round64_scaled)
  have b: "(x * 2 ^ n) * 2 powr of_int (- int n) = x"
    unfolding p by simp
  have c: "round_half_even (x * 2 ^ n) = (if even k then k else k + 1)"
    unfolding assms(3) by (rule round_half_even_tie)
  show ?thesis
    using a unfolding b c p by simp
qed

text \<open>The relative error of one rounding is at most \<open>2\<^sup>-\<^sup>5\<^sup>3\<close>.\<close>

lemma round64_relative_error: "\<bar>round64 x - x\<bar> \<le> \<bar>x\<bar> / 2 ^ 53"
proof (cases "x = 0")
  case True
  then show ?thesis by (simp add: round64_def)
next
  case False
  define e where "e = \<lfloor>log 2 \<bar>x\<bar>\<rfloor> - 52"
  define q where "q = 2 powr (of_int e :: real)"
  have qpos: "0 < q" by (simp add: q_def)
  have "of_int \<lfloor>log 2 \<bar>x\<bar>\<rfloor> \<le> log 2 \<bar>x\<bar>"
    by linarith
  then have "2 powr of_int \<lfloor>log 2 \<bar>x\<bar>\<rfloor> \<le> \<bar>x\<bar>"
    using False by (simp add: powr_le_iff)
  moreover have "2 powr of_int \<lfloor>log 2 \<bar>x\<bar>\<rfloor> = q * 2 ^ 52"
    unfolding q_def e_def by (simp add: powr_diff powr_numeral)
  ultimately have big: "q * 2 ^ 52 \<le> \<bar>x\<bar>"
    by simp
  have r: "round64 x = of_int (round_half_even (x / q)) * q"
    using False by (simp add: round64_def Let_def q_def e_def)
  have "round64 x - x = (of_int (round_half_even (x / q)) - x / q) * q"
    unfolding r using qpos by (simp add: left_diff_distrib)
  then have "\<bar>round64 x - x\<bar> = \<bar>of_int (round_half_even (x / q)) - x / q\<bar> * q"
    using qpos by (simp add: abs_mult)
  also have "\<dots> \<le> (1 / 2) * q"
    using round_half_even_error [of "x / q"] qpos by (intro mult_right_mono) simp_all
  also have "\<dots> \<le> \<bar>x\<bar> / 2 ^ 53"
    using big by simp
  finally show ?thesis .
qed

lemma round64_zero_iff: "round64 x = 0 \<longleftrightarrow> x = 0"
proof
  assume z: "round64 x = 0"
  show "x = 0"
  proof (rule ccontr)
    assume "x \<noteq> 0"
    then have "\<bar>x\<bar> / 2 ^ 53 < \<bar>x\<bar>"
      by (simp add: field_simps)
    with round64_relative_error [of x] z show False
      by simp
  qed
qed (simp add: round64_def)

lemma round64_pos: "0 < x \<Longrightarrow> 0 < round64 x"
proof -
  assume p: "0 < x"
  then have "x / 2 ^ 53 < x"
    by (simp add: field_simps)
  moreover have "\<bar>round64 x - x\<bar> \<le> x / 2 ^ 53"
    using round64_relative_error [of x] p by simp
  ultimately show ?thesis
    by linarith
qed

lemma round64_nonneg: "0 \<le> x \<Longrightarrow> 0 \<le> round64 x"
  using round64_pos [of x] by (cases "x = 0") (simp_all add: round64_def)

lemma round64_minus: "round64 (- x) = - round64 x"
  by (simp add: round64_def Let_def round_half_even_minus)

lemma round64_neg: "x < 0 \<Longrightarrow> round64 x < 0"
  using round64_pos [of "- x"] by (simp add: round64_minus)

text \<open>A number with at most 53 significant bits is not changed.\<close>

lemma round64_exact:
  assumes "\<bar>k\<bar> < 2 ^ 53"
  shows "round64 (of_int k * 2 powr of_int j) = of_int k * 2 powr of_int j"
proof (cases "k = 0")
  case True
  then show ?thesis by (simp add: round64_def)
next
  case False
  let ?x = "of_int k * 2 powr (of_int j :: real)"
  define e where "e = \<lfloor>log 2 \<bar>?x\<bar>\<rfloor> - 52"
  have nz: "?x \<noteq> 0" using False by simp
  have kpos: "0 < \<bar>real_of_int k\<bar>" using False by simp
  have "\<bar>real_of_int k\<bar> < 2 ^ 53"
    using assms by (metis of_int_abs of_int_less_numeral_power_cancel_iff)
  then have "log 2 \<bar>real_of_int k\<bar> < 53"
    using kpos by (simp add: log_less_iff powr_numeral)
  moreover have "log 2 \<bar>?x\<bar> = log 2 \<bar>real_of_int k\<bar> + of_int j"
    using kpos by (simp add: abs_mult log_mult)
  ultimately have "log 2 \<bar>?x\<bar> < of_int (53 + j)"
    by simp
  then have "\<lfloor>log 2 \<bar>?x\<bar>\<rfloor> < 53 + j"
    by (simp add: floor_less_iff)
  then have le: "e \<le> j"
    unfolding e_def by simp
  have "?x / 2 powr of_int e = of_int k * 2 powr (of_int (j - e))"
    by (simp add: powr_diff)
  also have "\<dots> = of_int k * 2 ^ nat (j - e)"
    using le by (simp add: powr_realpow [symmetric])
  also have "\<dots> = of_int (k * 2 ^ nat (j - e))"
    by simp
  finally have y: "?x / 2 powr of_int e = of_int (k * 2 ^ nat (j - e))" .
  have "round64 ?x = of_int (round_half_even (?x / 2 powr of_int e)) * 2 powr of_int e"
    using nz by (simp add: round64_def Let_def e_def)
  also have "\<dots> = (?x / 2 powr of_int e) * 2 powr of_int e"
    unfolding y by (simp only: round_half_even_of_int)
  also have "\<dots> = ?x"
    by simp
  finally show ?thesis .
qed

lemma round64_of_int:
  assumes "\<bar>k\<bar> < 2 ^ 53"
  shows "round64 (of_int k) = of_int k"
  using round64_exact [OF assms, of 0] by simp



lemma round64_simple [simp]: "round64 0 = 0" "round64 1 = 1"
  using round64_of_int [of 1] by (simp_all add: round64_def)

text \<open>Rounding a square root, from bounds on the squares of the two neighbouring midpoints.\<close>

lemma round64_sqrt_div:
  fixes M :: int
  assumes "0 \<le> x" "2 ^ 52 < M" "M < 2 ^ 53"
    and "(2 * of_int M - 1)\<^sup>2 < 4 * x * 4 ^ n" "4 * x * 4 ^ n < (2 * of_int M + 1)\<^sup>2"
  shows "round64 (sqrt x) = of_int M / 2 ^ n"
proof -
  have M: "(2::real) ^ 52 + 1 \<le> of_int M" "of_int M + 1 \<le> (2::real) ^ 53"
    using assms(2,3) by (simp_all add: int_le_real_less [symmetric] flip: of_int_add)
  have p: "(2::real) ^ 52 = 4503599627370496" "(2::real) ^ 53 = 9007199254740992"
    by simp_all
  have four: "sqrt ((4::real) ^ n) = 2 ^ n"
    by (metis real_sqrt_power real_sqrt_four)
  have y: "sqrt x * 2 ^ n = sqrt (x * 4 ^ n)"
    by (simp add: real_sqrt_mult four)
  have "(of_int M - 1 / 2)\<^sup>2 < x * 4 ^ n"
    using assms(4) by (simp add: power2_eq_square algebra_simps)
  then have lo: "of_int M - 1 / 2 < sqrt x * 2 ^ n"
    unfolding y by (rule real_less_rsqrt)
  have "x * 4 ^ n < (of_int M + 1 / 2)\<^sup>2"
    using assms(5) by (simp add: power2_eq_square algebra_simps)
  then have hi: "sqrt x * 2 ^ n < of_int M + 1 / 2"
    unfolding y using M by (intro real_less_lsqrt) simp_all
  show ?thesis
  proof (rule round64_eval_div [OF _ _ lo hi])
    show "2 ^ 52 \<le> \<bar>sqrt x * 2 ^ n\<bar>" using lo M unfolding p by linarith
    show "\<bar>sqrt x * 2 ^ n\<bar> < 2 ^ 53" using lo hi M unfolding p by linarith
  qed
qed

lemma round64_sqrt_mul:
  fixes M :: int
  assumes "0 \<le> x" "2 ^ 52 < M" "M < 2 ^ 53"
    and "(2 * of_int M - 1)\<^sup>2 * 4 ^ n < 4 * x" "4 * x < (2 * of_int M + 1)\<^sup>2 * 4 ^ n"
  shows "round64 (sqrt x) = of_int M * 2 ^ n"
proof -
  have M: "(2::real) ^ 52 + 1 \<le> of_int M" "of_int M + 1 \<le> (2::real) ^ 53"
    using assms(2,3) by (simp_all add: int_le_real_less [symmetric] flip: of_int_add)
  have p: "(2::real) ^ 52 = 4503599627370496" "(2::real) ^ 53 = 9007199254740992"
    by simp_all
  have four: "sqrt ((4::real) ^ n) = 2 ^ n"
    by (metis real_sqrt_power real_sqrt_four)
  have y: "sqrt x / 2 ^ n = sqrt (x / 4 ^ n)"
    by (simp add: real_sqrt_divide four)
  have "(2 * of_int M - 1)\<^sup>2 = 4 * (of_int M - 1 / 2 :: real)\<^sup>2"
    by (simp add: power2_eq_square algebra_simps)
  then have "(of_int M - 1 / 2)\<^sup>2 * 4 ^ n < x"
    using assms(4) by simp
  then have "(of_int M - 1 / 2)\<^sup>2 < x / 4 ^ n"
    by (simp add: pos_less_divide_eq)
  then have lo: "of_int M - 1 / 2 < sqrt x / 2 ^ n"
    unfolding y by (rule real_less_rsqrt)
  have "(2 * of_int M + 1)\<^sup>2 = 4 * (of_int M + 1 / 2 :: real)\<^sup>2"
    by (simp add: power2_eq_square algebra_simps)
  then have "x < (of_int M + 1 / 2)\<^sup>2 * 4 ^ n"
    using assms(5) by simp
  then have "x / 4 ^ n < (of_int M + 1 / 2)\<^sup>2"
    by (simp add: pos_divide_less_eq)
  then have hi: "sqrt x / 2 ^ n < of_int M + 1 / 2"
    unfolding y using M by (intro real_less_lsqrt) simp_all
  show ?thesis
  proof (rule round64_eval_mul [OF _ _ lo hi])
    show "2 ^ 52 \<le> \<bar>sqrt x / 2 ^ n\<bar>" using lo M unfolding p by linarith
    show "\<bar>sqrt x / 2 ^ n\<bar> < 2 ^ 53" using lo hi M unfolding p by linarith
  qed
qed

lemma fl_sum_simps:
  "fl_sum [] = 0"
  "fl_sum [a] = round64 a"
  "fl_sum [a, b] = round64 (round64 a + b)"
  "fl_sum [a, b, c] = round64 (round64 (round64 a + b) + c)"
  by (simp_all add: fl_sum_def fl_add_def)

subsection \<open>Statistics of the column 1, 2, 2, 3, 4\<close>

text \<open>
  C1. For the value column \<open>[1, 2, 2, 3, 4]\<close>, \<^verbatim>\<open>calculate_statistics\<close> returns a summary
  with mean 2.4, median 2, primary mode 2 and no further mode, sample variance 1.3 (divisor
  \<open>n - 1\<close>), standard deviation \<open>sqrt 1.3\<close>, which is 1.1401754 to seven decimals, first
  quartile 2 and third quartile 3 by linear interpolation, interquartile range 1, and
  outlier bounds 0.5 and 4.5. The other two columns of the frame are arbitrary.
\<close>

theorem statistics_scenario_A:
  "\<exists>s. calculate_statistics
          \<lparr>time_col = ts, activity_col = act,
           volume_col = [Some 1, Some 2, Some 2, Some 3, Some 4]\<rparr> col_volume = Inr s
     \<and> st_mean s = 2.4 \<and> st_median s = 2 \<and> st_mode s = Some 2 \<and> st_extra_modes s = None
     \<and> st_variance s = Fin 1.3 \<and> st_std s = Fin (sqrt 1.3)
     \<and> \<bar>sqrt 1.3 - 1.1401754\<bar> < 1 / 10 ^ 7
     \<and> st_q1 s = 2 \<and> st_q3 s = 3 \<and> st_iqr s = 1
     \<and> st_outlier_lower s = 0.5 \<and> st_outlier_upper s = 4.5"
proof -
  let ?s = "summary [1, 2, 2, 3, 4]"
  have run: "calculate_statistics
          \<lparr>time_col = ts, activity_col = act,
           volume_col = [Some 1, Some 2, Some 2, Some 3, Some 4]\<rparr> col_volume = Inr ?s"
    by (simp add: calculate_statistics_def in_columns_def getitem_def col_names_distinct)
  have lo: "(114017535::real) / 100000000 < sqrt (13 / 10)"
    by (rule real_less_rsqrt) (simp add: power2_eq_square)
  have hi: "sqrt (13 / 10) < (114017545::real) / 100000000"
    by (rule real_less_lsqrt) (simp_all add: power2_eq_square)
  have "\<bar>sqrt (13 / 10) - 11401754 / 10000000\<bar> < (1::real) / 10000000"
    using lo hi by linarith
  then have sq: "\<bar>sqrt 1.3 - 1.1401754\<bar> < (1::real) / 10 ^ 7"
    by simp
  have mean: "st_mean ?s = 2.4"
    by (simp add: summary_def Let_def series_mean_def)
  have med: "st_median ?s = 2"
    by (simp add: summary_def Let_def series_median_def)
  have md: "st_mode ?s = Some 2" "st_extra_modes ?s = None"
    by (simp_all add: summary_def Let_def series_mode_def)
  have var: "st_variance ?s = Fin 1.3"
    by (simp add: summary_def Let_def series_var_def central_sum_def series_mean_def
        power2_eq_square)
  have std: "st_std ?s = Fin (sqrt 1.3)"
    by (simp add: summary_def Let_def series_std_def series_var_def central_sum_def
        series_mean_def power2_eq_square)
  have q: "st_q1 ?s = 2" "st_q3 ?s = 3" "st_iqr ?s = 1"
    by (simp_all add: summary_def Let_def series_quantile_def)
  have out: "st_outlier_lower ?s = 0.5" "st_outlier_upper ?s = 4.5"
    by (simp_all add: summary_def Let_def series_quantile_def)
  show ?thesis
    unfolding run using mean med md var std sq q out by blast
qed

subsection \<open>Lag features\<close>

text \<open>
  C2. For a lag of at least 1 and a series of at least \<open>2 * lag\<close> values, the lag-feature
  construction returns \<open>len(series) - lag\<close> rows and as many labels; row \<open>i\<close> has \<open>lag\<close>
  entries, the values \<open>series[i], ..., series[i + lag - 1]\<close>, and label \<open>i\<close> is
  \<open>series[i + lag]\<close>. For a series of fewer than \<open>2 * lag\<close> values the construction gives the
  insufficient-data error asking for \<open>2 * lag\<close> values, and so does \<^verbatim>\<open>open_forecast_plot\<close>
  for every validated column whose values are that series, whatever the regressor.
\<close>

theorem lag_features_correct:
  assumes "1 \<le> lag"
  shows "(2 * lag \<le> length series \<longrightarrow>
            (\<exists>X y. build_lag_features series lag = Inr (X, y)
               \<and> length X = length series - lag \<and> length y = length series - lag
               \<and> (\<forall>i < length series - lag.
                     length (X ! i) = lag
                   \<and> (\<forall>j < lag. X ! i ! j = series ! (i + j))
                   \<and> y ! i = series ! (i + lag))))
       \<and> (length series < 2 * lag \<longrightarrow>
            build_lag_features series lag = Inl (InsufficientData (2 * lag))
          \<and> (validate_numeric_column df column \<and> getitem df column = Some col
               \<and> float_values (dropna col) = series
              \<longrightarrow> open_forecast_plot model_name model df column lag
                    = Inl (InsufficientData (2 * lag))))"
proof -
  have "open_forecast_plot model_name model df column lag = Inl (InsufficientData (2 * lag))"
    if "length series < 2 * lag" "validate_numeric_column df column"
      "getitem df column = Some col" "float_values (dropna col) = series"
    using that lag_features_short [of series lag] by (simp add: open_forecast_plot_def)
  with lag_features_long [of lag series] lag_features_short [of series lag]
  show ?thesis by blast
qed

theorem lag_features_correct_witness:
  "(1::nat) \<le> 7
   \<and> 2 * 7 \<le> length [1, 2, 3, 4, 5, 6, 7, 8, 9, 10, 11, 12, 13, 14 :: real]
   \<and> (\<exists>X y. build_lag_features [1, 2, 3, 4, 5, 6, 7, 8, 9, 10, 11, 12, 13, 14] 7 = Inr (X, y)
         \<and> length X = 7 \<and> length y = 7
         \<and> (\<forall>i < 7. length (X ! i) = 7))
   \<and> length [1, 2, 3 :: real] < 2 * 7
   \<and> validate_numeric_column
        \<lparr>time_col = [None, None, None], activity_col = ActivityObject [NaCell, NaCell, NaCell],
         volume_col = [Some 1, Some 2, Some 3]\<rparr> col_volume
   \<and> open_forecast_plot [] (\<lambda>X_train y_train X_test. Inr (map (\<lambda>row. 0) X_test))
        \<lparr>time_col = [None, None, None], activity_col = ActivityObject [NaCell, NaCell, NaCell],
         volume_col = [Some 1, Some 2, Some 3]\<rparr> col_volume 7
       = Inl (InsufficientData 14)"
proof -
  let ?df = "\<lparr>time_col = [None, None, None],
              activity_col = ActivityObject [NaCell, NaCell, NaCell],
              volume_col = [Some 1, Some 2, Some (3::real)]\<rparr>"
  have v: "validate_numeric_column ?df col_volume"
    by (simp add: validate_numeric_column_def in_columns_def getitem_def col_names_distinct)
  have g: "getitem ?df col_volume = Some (FloatSeries [Some 1, Some 2, Some 3])"
    by (simp add: getitem_def col_names_distinct)
  have f: "float_values (dropna (FloatSeries [Some 1, Some 2, Some 3])) = [1, 2, 3]"
    by simp
  have long: "\<exists>X y. build_lag_features [1, 2, 3, 4, 5, 6, 7, 8, 9, 10, 11, 12, 13, 14] 7 = Inr (X, y)
         \<and> length X = 7 \<and> length y = 7 \<and> (\<forall>i < 7. length (X ! i) = 7)"
    using lag_features_correct [of 7 "[1, 2, 3, 4, 5, 6, 7, 8, 9, 10, 11, 12, 13, 14]"]
    by fastforce
  have short: "open_forecast_plot [] (\<lambda>X_train y_train X_test. Inr (map (\<lambda>row. 0) X_test))
        ?df col_volume 7 = Inl (InsufficientData 14)"
    using lag_features_correct [of 7 "[1, 2, 3]" ?df col_volume
        "FloatSeries [Some 1, Some 2, Some 3]" "[]"
        "\<lambda>X_train y_train X_test. Inr (map (\<lambda>row. 0) X_test)"] v g f
    by simp
  show ?thesis
    using long short v by simp
qed

subsection \<open>The chronological split\<close>

lemma n_test_of_div: "n_test_of n = (n + 4) div 5"
proof -
  have "\<lceil>0.2 * real n\<rceil> = \<lceil>of_int (int n) / (of_int 5 :: real)\<rceil>" by simp
  also have "\<dots> = - (- int n div 5)" by (rule ceiling_divide_eq_div)
  finally show ?thesis unfolding n_test_of_def by linarith
qed

lemma split_index: "n - n_test_of n = nat \<lfloor>0.8 * real n\<rfloor>"
proof -
  have "\<lfloor>0.8 * real n\<rfloor> = \<lfloor>of_int (4 * int n) / (of_int 5 :: real)\<rfloor>" by simp
  also have "\<dots> = (4 * int n) div 5" by (rule floor_divide_of_int_eq)
  finally show ?thesis unfolding n_test_of_div by linarith
qed

lemma train_test_split_rows:
  assumes "length y = length X" "2 \<le> length X"
  shows "train_test_split X y =
           Inr (take (length X - n_test_of (length X)) X, drop (length X - n_test_of (length X)) X,
                take (length X - n_test_of (length X)) y, drop (length X - n_test_of (length X)) y)"
proof -
  let ?n = "length X"
  have pos: "?n - n_test_of ?n \<noteq> 0"
    using assms(2) unfolding n_test_of_div by linarith
  have le: "n_test_of ?n \<le> ?n"
    unfolding n_test_of_div by linarith
  have "take (n_test_of ?n) (drop (?n - n_test_of ?n) X) = drop (?n - n_test_of ?n) X"
    using le by simp
  moreover have "take (n_test_of ?n) (drop (?n - n_test_of ?n) y) = drop (?n - n_test_of ?n) y"
    using le assms(1) by simp
  ultimately show ?thesis
    using pos by (simp add: train_test_split_def Let_def)
qed

lemma scenario_D_features:
  "lag_loop scenario_D_series 7 =
     ([[1, 2, 3, 4, 5, 6, 7], [2, 3, 4, 5, 6, 7, 8], [3, 4, 5, 6, 7, 8, 9],
       [4, 5, 6, 7, 8, 9, 10], [5, 6, 7, 8, 9, 10, 11], [6, 7, 8, 9, 10, 11, 12],
       [7, 8, 9, 10, 11, 12, 13]],
      [8, 9, 10, 11, 12, 13, 14])"
  by (simp add: lag_loop_def scenario_D_series_def upt_rec [of _ 7] upt_rec [of _ "Suc _"]
         numeral_nat)

text \<open>
  C3 as stated fails on the feature set of scenario D (fourteen points, lag 7): the seven
  rows are split into five train rows and two test rows, while \<open>floor(0.2 * 7)\<close> is 1.
\<close>

theorem test_size_not_floor:
  "train_test_split (fst (lag_loop scenario_D_series 7)) (snd (lag_loop scenario_D_series 7))
     = Inr (take 5 (fst (lag_loop scenario_D_series 7)), drop 5 (fst (lag_loop scenario_D_series 7)),
            take 5 (snd (lag_loop scenario_D_series 7)), drop 5 (snd (lag_loop scenario_D_series 7)))
   \<and> length (drop 5 (fst (lag_loop scenario_D_series 7))) = 2
   \<and> nat \<lfloor>0.2 * real (length (fst (lag_loop scenario_D_series 7)))\<rfloor> = 1
   \<and> length (drop 5 (fst (lag_loop scenario_D_series 7)))
       \<noteq> nat \<lfloor>0.2 * real (length (fst (lag_loop scenario_D_series 7)))\<rfloor>"
  by (simp add: scenario_D_features train_test_split_def n_test_of_def Let_def)

text \<open>
  C3, amended. For a feature set \<open>X\<close> of at least two rows with its labels \<open>y\<close>, the split
  keeps the order: with \<open>split = floor(0.8 * len(X))\<close> the train part is rows \<open>[0, split)\<close>
  and the test part rows \<open>[split, len(X))\<close>, of \<open>X\<close> and of \<open>y\<close> alike; the two parts
  together are \<open>X\<close>, their lengths add up to \<open>len(X)\<close>, and the test part has
  \<open>ceil(0.2 * len(X))\<close> rows. A feature set of one row is not split: the train set would be
  empty and \<^verbatim>\<open>train_test_split\<close> raises.
\<close>

theorem chronological_split:
  assumes "length y = length X"
  shows "(2 \<le> length X \<longrightarrow>
           (let split = nat \<lfloor>0.8 * real (length X)\<rfloor>
            in train_test_split X y = Inr (take split X, drop split X, take split y, drop split y)
             \<and> take split X @ drop split X = X
             \<and> length (take split X) = split
             \<and> length (take split X) + length (drop split X) = length X
             \<and> length (drop split X) = nat \<lceil>0.2 * real (length X)\<rceil>))
       \<and> (length X \<le> 1 \<longrightarrow> train_test_split X y = Inl EmptyTrainSet)"
proof (intro conjI impI)
  assume two: "2 \<le> length X"
  let ?n = "length X"
  have le: "n_test_of ?n \<le> ?n"
    unfolding n_test_of_div by linarith
  have "length (drop (?n - n_test_of ?n) X) = nat \<lceil>0.2 * real ?n\<rceil>"
    using le by (simp add: n_test_of_def)
  then show "let split = nat \<lfloor>0.8 * real (length X)\<rfloor>
            in train_test_split X y = Inr (take split X, drop split X, take split y, drop split y)
             \<and> take split X @ drop split X = X
             \<and> length (take split X) = split
             \<and> length (take split X) + length (drop split X) = length X
             \<and> length (drop split X) = nat \<lceil>0.2 * real (length X)\<rceil>"
    using train_test_split_rows [OF assms two]
    unfolding split_index [symmetric] by (simp add: Let_def)
next
  assume "length X \<le> 1"
  then have "length X - n_test_of (length X) = 0"
    unfolding n_test_of_div by linarith
  then show "train_test_split X y = Inl EmptyTrainSet"
    by (simp add: train_test_split_def Let_def)
qed

theorem chronological_split_witness:
  "length [2, 3, 4, 5, 6, 7, 8 :: real] = length [[1], [2], [3], [4], [5], [6], [7 :: real]]
   \<and> 2 \<le> length [[1], [2], [3], [4], [5], [6], [7 :: real]]
   \<and> train_test_split [[1], [2], [3], [4], [5], [6], [7]] [2, 3, 4, 5, 6, 7, 8]
       = Inr ([[1], [2], [3], [4], [5]], [[6], [7]], [2, 3, 4, 5, 6], [7, 8])
   \<and> length [2 :: real] = length [[1 :: real]]
   \<and> length [[1 :: real]] \<le> 1
   \<and> train_test_split [[1]] [2] = Inl EmptyTrainSet"
  using chronological_split [of "[2, 3, 4, 5, 6, 7, 8]" "[[1], [2], [3], [4], [5], [6], [7]]"]
    chronological_split [of "[2]" "[[1]]"]
  by (simp add: Let_def)

subsection \<open>Correlation: the significance label\<close>

lemma t_statistic_one:
  "t_statistic (Fin 1) n = PInf"
  by (simp add: t_statistic_def)

lemma t_statistic_minus_one:
  assumes "2 < n"
  shows "t_statistic (Fin (- 1)) n = PInf"
  using assms by (simp add: t_statistic_def np_sub_def signed_inf_def)

lemma t_statistic_inner:
  assumes "2 < n" "- 1 < r" "r < 1"
  shows "t_statistic (Fin r) n = Fin (\<bar>r\<bar> * sqrt ((real n - 2) / (1 - r\<^sup>2)))"
proof -
  have "r\<^sup>2 < 1"
    using assms(2,3) by (simp add: abs_square_less_1 abs_less_iff)
  then have pos: "0 < 1 - r * r"
    by (simp add: power2_eq_square)
  then have "0 \<le> (real n - 2) / (1 - r * r)"
    using assms(1) by simp
  then show ?thesis
    using pos assms(3) by (simp add: t_statistic_def np_sub_def power2_eq_square)
qed

text \<open>A coefficient that is nan (a constant column) gets the last label.\<close>

lemma estimate_p_value_nan:
  assumes "2 < n"
  shows "estimate_p_value NaN n = NotSignificant"
  using assms by (simp add: estimate_p_value_def t_statistic_def)

text \<open>
  C6. For more than two pairs and a coefficient \<open>r\<close> in \<open>[-1, 1]\<close>, the label that
  \<^verbatim>\<open>estimate_p_value\<close> returns is the label of the specification: from
  \<open>t = |r| * sqrt((n - 2) / (1 - r\<^sup>2))\<close>, infinite at \<open>r = 1\<close> and at \<open>r = -1\<close>, highly
  significant above 3.5, significant above 2.6, moderately significant above 1.96, and not
  significant otherwise.
\<close>

theorem significance_label_matches:
  assumes "2 < n" "- 1 \<le> r" "r \<le> 1"
  shows "estimate_p_value (Fin r) n = spec_significance r n"
proof -
  consider "r = 1" | "r = - 1" | "- 1 < r" "r < 1"
    using assms(2,3) by linarith
  then show ?thesis
  proof cases
    case 1
    then show ?thesis
      using assms(1) by (simp add: estimate_p_value_def t_statistic_one spec_significance_def
          spec_t_def)
  next
    case 2
    then show ?thesis
      using assms(1) t_statistic_minus_one [OF assms(1)]
      by (simp add: estimate_p_value_def spec_significance_def spec_t_def)
  next
    case 3
    then have "r \<noteq> 1" "r \<noteq> - 1" by simp_all
    then show ?thesis
      using assms(1) t_statistic_inner [OF assms(1) 3]
      by (simp add: estimate_p_value_def spec_significance_def spec_t_def Let_def)
  qed
qed

theorem significance_label_matches_witness:
  "(2::nat) < 10 \<and> - 1 \<le> (1 / 2 :: real) \<and> (1 / 2 :: real) \<le> 1
   \<and> estimate_p_value (Fin (1 / 2)) 10 = spec_significance (1 / 2) 10
   \<and> (2::nat) < 5 \<and> estimate_p_value (Fin (- 1)) 5 = HighlySignificant
   \<and> spec_significance (- 1) 5 = HighlySignificant"
proof -
  have "estimate_p_value (Fin (1 / 2)) 10 = spec_significance (1 / 2) 10"
    using significance_label_matches [of 10 "1 / 2"] by simp
  moreover have "estimate_p_value (Fin (- 1)) 5 = spec_significance (- 1) 5"
    using significance_label_matches [of 5 "- 1"] by simp
  moreover have "spec_significance (- 1) 5 = HighlySignificant"
    by (simp add: spec_significance_def spec_t_def)
  ultimately show ?thesis by simp
qed

subsection \<open>Correlation: the two argument orders\<close>

lemma clean_pairs_swap:
  "clean_pairs d2 d1 = map (\<lambda>(a, b). (b, a)) (clean_pairs d1 d2)"
proof -
  have "zip d2 d1 = map (\<lambda>(a, b). (b, a)) (zip d1 d2)"
    by (rule zip_commute)
  then show ?thesis
    unfolding clean_pairs_def by (simp add: filter_map o_def case_prod_unfold conj_commute)
qed

lemma clean_pairs_fst_snd:
  "map fst (clean_pairs d2 d1) = map snd (clean_pairs d1 d2)"
  "map snd (clean_pairs d2 d1) = map fst (clean_pairs d1 d2)"
  unfolding clean_pairs_swap [of d2 d1] by (simp_all add: case_prod_unfold o_def)

lemma covariance_commute:
  assumes "length xs = length ys"
  shows "covariance xs ys = covariance ys xs"
proof -
  have "map2 (\<lambda>x y. (x - series_mean xs) * (y - series_mean ys)) xs ys
      = map2 (\<lambda>y x. (y - series_mean ys) * (x - series_mean xs)) ys xs"
    unfolding zip_commute [of xs ys] by (simp add: case_prod_unfold o_def mult.commute)
  then show ?thesis
    unfolding covariance_def using assms by simp
qed

lemma covariance_self_nonneg: "0 \<le> covariance xs xs"
proof -
  have "0 \<le> sum_list (map2 (\<lambda>x y. (x - series_mean xs) * (y - series_mean xs)) xs xs)"
    by (rule sum_list_nonneg) (auto simp: zip_same)
  then show ?thesis
    unfolding covariance_def by simp
qed

lemma valid_swap:
  "filter (\<lambda>(a, b). a \<noteq> None \<and> b \<noteq> None) (zip ys xs)
     = map (\<lambda>(a, b). (b, a)) (filter (\<lambda>(a, b). a \<noteq> None \<and> b \<noteq> None) (zip xs ys))"
proof -
  have "zip ys xs = map (\<lambda>(a, b). (b, a)) (zip xs ys)"
    by (rule zip_commute)
  then show ?thesis
    by (simp add: filter_map o_def case_prod_unfold conj_commute)
qed

lemma corr_data_time:
  "corr_data df col_time = Inr (to_numeric_datetime (time_col df))"
  by (simp add: corr_data_def)

lemma corr_data_volume:
  "corr_data df col_volume =
     Inr (map (\<lambda>v. case v of None \<Rightarrow> NaCell | Some x \<Rightarrow> NumCell x) (volume_col df))"
  by (simp add: corr_data_def getitem_def col_names_distinct)

lemma corr_data_activity:
  "corr_data df col_activity = Inr (series_cells (activity_series (activity_col df)))"
  by (simp add: corr_data_def getitem_def col_names_distinct)

lemma stddev_nonneg: "0 \<le> stddev xs"
  unfolding stddev_def by (intro round64_nonneg) (simp add: covariance_self_nonneg)

text \<open>The clip does not enlarge a difference.\<close>

lemma clip_lipschitz:
  "\<bar>min 1 (max (- 1) x) - min 1 (max (- 1) y)\<bar> \<le> \<bar>x - y\<bar>" for x y :: real
  by (auto simp: min_def max_def abs_le_iff)

text \<open>Two rounded divisions in a row stay within \<open>2\<^sup>-\<^sup>5\<^sup>1\<close> of the exact quotient, relatively.\<close>

lemma two_divisions_error:
  assumes "0 < s0" "0 < s1"
  shows "\<bar>round64 (round64 (c / s0) / s1) - c / (s0 * s1)\<bar> \<le> \<bar>c / (s0 * s1)\<bar> / 2 ^ 51"
proof -
  define rho where "rho = c / (s0 * s1)"
  define a where "a = round64 (c / s0)"
  define b where "b = round64 (a / s1)"
  have e1: "\<bar>a - c / s0\<bar> \<le> \<bar>c / s0\<bar> / 2 ^ 53"
    unfolding a_def by (rule round64_relative_error)
  have e2: "\<bar>b - a / s1\<bar> \<le> \<bar>a / s1\<bar> / 2 ^ 53"
    unfolding b_def by (rule round64_relative_error)
  have q: "c / s0 / s1 = rho"
    unfolding rho_def by (simp add: divide_divide_eq_left)
  have "a / s1 - rho = (a - c / s0) / s1"
    unfolding q [symmetric] by (simp add: diff_divide_distrib)
  then have "\<bar>a / s1 - rho\<bar> = \<bar>a - c / s0\<bar> / s1"
    using assms(2) by (simp add: abs_divide)
  also have "\<dots> \<le> (\<bar>c / s0\<bar> / 2 ^ 53) / s1"
    using e1 assms(2) by (intro divide_right_mono) simp_all
  also have "\<dots> = \<bar>c / s0 / s1\<bar> / 2 ^ 53"
  proof -
    have "\<bar>s1\<bar> = s1" using assms(2) by simp
    then have "\<bar>c / s0 / s1\<bar> = \<bar>c / s0\<bar> / s1"
      by (simp only: abs_divide)
    then show ?thesis
      by (simp only: divide_divide_eq_left mult.commute)
  qed
  also have "\<dots> = \<bar>rho\<bar> / 2 ^ 53"
    unfolding q ..
  finally have d1: "\<bar>a / s1 - rho\<bar> \<le> \<bar>rho\<bar> / 2 ^ 53" .
  then have "\<bar>a / s1\<bar> \<le> \<bar>rho\<bar> + \<bar>rho\<bar> / 2 ^ 53"
    by linarith
  then have "\<bar>a / s1\<bar> / 2 ^ 53 \<le> (\<bar>rho\<bar> + \<bar>rho\<bar> / 2 ^ 53) / 2 ^ 53"
    by (intro divide_right_mono) simp_all
  with e2 have d2: "\<bar>b - a / s1\<bar> \<le> (\<bar>rho\<bar> + \<bar>rho\<bar> / 2 ^ 53) / 2 ^ 53"
    by linarith
  have "\<bar>b - rho\<bar> \<le> \<bar>b - a / s1\<bar> + \<bar>a / s1 - rho\<bar>"
    by linarith
  also have "\<dots> \<le> (\<bar>rho\<bar> + \<bar>rho\<bar> / 2 ^ 53) / 2 ^ 53 + \<bar>rho\<bar> / 2 ^ 53"
    using d1 d2 by linarith
  also have "\<dots> \<le> \<bar>rho\<bar> / 2 ^ 51"
    by (simp add: field_simps)
  finally show ?thesis
    unfolding b_def a_def rho_def .
qed

lemma corr_quotient_finite:
  assumes "s0 \<noteq> 0" "s1 \<noteq> 0"
  shows "corr_quotient c s0 s1 = Fin (min 1 (max (- 1) (round64 (round64 (c / s0) / s1))))"
  using assms by (simp add: corr_quotient_def)

lemma corr_quotient_positive_close:
  assumes "0 < s0" "0 < s1"
  shows "\<exists>x y. corr_quotient c s0 s1 = Fin x \<and> corr_quotient c s1 s0 = Fin y
           \<and> \<bar>x - y\<bar> \<le> 1 / 2 ^ 49"
proof -
  define rho where "rho = c / (s0 * s1)"
  define b where "b = round64 (round64 (c / s0) / s1)"
  define b' where "b' = round64 (round64 (c / s1) / s0)"
  have rho': "c / (s1 * s0) = rho"
    unfolding rho_def by (simp add: mult.commute)
  have eb: "\<bar>b - rho\<bar> \<le> \<bar>rho\<bar> / 2 ^ 51"
    unfolding b_def rho_def by (rule two_divisions_error [OF assms])
  have eb': "\<bar>b' - rho\<bar> \<le> \<bar>rho\<bar> / 2 ^ 51"
    unfolding b'_def rho' [symmetric] by (rule two_divisions_error [OF assms(2,1)])
  have x: "corr_quotient c s0 s1 = Fin (min 1 (max (- 1) b))"
    unfolding b_def using assms by (intro corr_quotient_finite) simp_all
  have y: "corr_quotient c s1 s0 = Fin (min 1 (max (- 1) b'))"
    unfolding b'_def using assms by (intro corr_quotient_finite) simp_all
  have "\<bar>min 1 (max (- 1) b) - min 1 (max (- 1) b')\<bar> \<le> 1 / 2 ^ 49"
  proof (cases "\<bar>rho\<bar> \<le> 2")
    case True
    then have "\<bar>rho\<bar> / 2 ^ 51 \<le> 2 / 2 ^ 51"
      by (intro divide_right_mono) simp_all
    with eb eb' have "\<bar>b - b'\<bar> \<le> 4 / 2 ^ 51"
      by linarith
    then have "\<bar>b - b'\<bar> \<le> 1 / 2 ^ 49"
      by simp
    with clip_lipschitz [of b b'] show ?thesis
      by linarith
  next
    case False
    have small: "\<bar>rho\<bar> / 2 ^ 51 \<le> \<bar>rho\<bar> / 4"
      by (simp add: field_simps)
    show ?thesis
    proof (cases "0 < rho")
      case True
      with False eb eb' small have "1 \<le> b" "1 \<le> b'"
        by linarith+
      then show ?thesis by simp
    next
      case neg: False
      with False eb eb' small have "b \<le> - 1" "b' \<le> - 1"
        by linarith+
      then show ?thesis by simp
    qed
  qed
  with x y show ?thesis by blast
qed

lemma corr_quotient_zero_left:
  assumes "0 < s"
  shows "corr_quotient c 0 s = corr_quotient c s 0"
proof -
  consider "c = 0" | "0 < c" | "c < 0" by linarith
  then show ?thesis
  proof cases
    case 1
    then show ?thesis
      using assms by (simp add: corr_quotient_def signed_inf_def)
  next
    case 2
    then have "0 < round64 (c / s)"
      using assms by (intro round64_pos) simp
    then show ?thesis
      using 2 assms by (simp add: corr_quotient_def signed_inf_def)
  next
    case 3
    then have "round64 (c / s) < 0"
      using assms by (intro round64_neg) (simp add: divide_neg_pos)
    then show ?thesis
      using 3 assms by (simp add: corr_quotient_def signed_inf_def)
  qed
qed

lemma corr_quotient_swap:
  assumes "0 \<le> s0" "0 \<le> s1"
  shows "corr_quotient c s1 s0 = corr_quotient c s0 s1
       \<or> (\<exists>x y. corr_quotient c s0 s1 = Fin x \<and> corr_quotient c s1 s0 = Fin y
               \<and> \<bar>x - y\<bar> \<le> 1 / 2 ^ 49)"
proof -
  consider "s0 = 0" "s1 = 0" | "s0 = 0" "0 < s1" | "0 < s0" "s1 = 0" | "0 < s0" "0 < s1"
    using assms by linarith
  then show ?thesis
  proof cases
    case 1
    then show ?thesis by simp
  next
    case 2
    then show ?thesis using corr_quotient_zero_left [of s1 c] by simp
  next
    case 3
    then show ?thesis using corr_quotient_zero_left [of s0 c] by simp
  next
    case 4
    then show ?thesis using corr_quotient_positive_close [of s0 s1 c] by blast
  qed
qed

lemma np_corrcoef_swap:
  assumes "length xs = length ys"
  shows "np_corrcoef ys xs = np_corrcoef xs ys
       \<or> (\<exists>x y. np_corrcoef xs ys = Fin x \<and> np_corrcoef ys xs = Fin y
               \<and> \<bar>x - y\<bar> \<le> 1 / 2 ^ 49)"
proof (cases "length xs < 2")
  case True
  then show ?thesis
    using assms by (simp add: np_corrcoef_def)
next
  case False
  then show ?thesis
    using assms corr_quotient_swap [OF stddev_nonneg [of xs] stddev_nonneg [of ys],
        of "covariance xs ys"]
    by (simp add: np_corrcoef_def covariance_commute [of ys xs])
qed

lemma series_corr_swap:
  assumes "series_corr parse this other = Inr r"
  shows "\<exists>r'. series_corr parse other this = Inr r'
           \<and> (r' = r \<or> (\<exists>x y. r = Fin x \<and> r' = Fin y \<and> \<bar>x - y\<bar> \<le> 1 / 2 ^ 49))"
proof -
  obtain tv ov where tv: "to_numpy_float parse this = Inr tv"
    and ov: "to_numpy_float parse other = Inr ov"
    using assms by (auto simp: series_corr_def split: sum.splits)
  let ?valid = "filter (\<lambda>(a, b). a \<noteq> None \<and> b \<noteq> None) (zip tv ov)"
  let ?valid' = "filter (\<lambda>(a, b). a \<noteq> None \<and> b \<noteq> None) (zip ov tv)"
  let ?xs = "map (the \<circ> fst) ?valid" and ?ys = "map (the \<circ> snd) ?valid"
  have r: "r = (if length ?valid < 1 then NaN else np_corrcoef ?xs ?ys)"
    using assms by (simp add: series_corr_def tv ov Let_def split: if_splits)
  have sw: "?valid' = map (\<lambda>(a, b). (b, a)) ?valid"
    by (rule valid_swap)
  have f1: "map (the \<circ> fst) ?valid' = ?ys"
    and f2: "map (the \<circ> snd) ?valid' = ?xs"
    and f3: "length ?valid' = length ?valid"
    unfolding sw by (simp_all add: case_prod_unfold o_def)
  have "series_corr parse other this =
          Inr (if length ?valid' < 1 then NaN
               else np_corrcoef (map (the \<circ> fst) ?valid') (map (the \<circ> snd) ?valid'))"
    by (simp add: series_corr_def tv ov Let_def)
  then have r': "series_corr parse other this =
          Inr (if length ?valid < 1 then NaN else np_corrcoef ?ys ?xs)"
    by (simp only: f1 f2 f3)
  have len: "length ?xs = length ?ys"
    by simp
  show ?thesis
  proof (cases "length ?valid < 1")
    case True
    then show ?thesis
      unfolding r r' by simp
  next
    case False
    then show ?thesis
      unfolding r r' using np_corrcoef_swap [OF len] by auto
  qed
qed

text \<open>
  The coefficient of the columns \<open>[12, 0, 15]\<close> and \<open>[0, 9, 45]\<close> in the two orders. The
  covariance is 94.5 and the two variances are 63 and 567; every sum and product up to
  there is exact in float64, so the only roundings are those of the model.
\<close>

lemma corrcoef_volume_activity:
  "np_corrcoef [12, 0, 15] [0, 9, 45] = Fin (1 / 2)"
  "np_corrcoef [0, 9, 45] [12, 0, 15] = Fin (9007199254740991 / 2 ^ 54)"
proof -
  have cvv: "covariance [12, 0, 15] [12, 0, 15] = 63"
    and caa: "covariance [0, 9, 45] [0, 9, 45] = 567"
    and cva: "covariance [12, 0, 15] [0, 9, 45] = 189 / 2"
    and cav: "covariance [0, 9, 45] [12, 0, 15] = 189 / 2"
    by (simp_all add: covariance_def series_mean_def)
  have sv: "stddev [12, 0, 15] = 8936553463969119 / 2 ^ 50"
    unfolding stddev_def cvv
    using round64_sqrt_div [of 63 8936553463969119 50] by simp
  have sa: "stddev [0, 9, 45] = 6702415097976839 / 2 ^ 48"
    unfolding stddev_def caa
    using round64_sqrt_div [of 567 6702415097976839 48] by simp
  have a1: "round64 ((189 / 2) / (8936553463969119 / 2 ^ 50)) = 6702415097976839 / 2 ^ 49"
    using round64_eval_div [of "(189 / 2) / (8936553463969119 / 2 ^ 50)" 49 6702415097976839]
    by simp
  have r1: "round64 ((6702415097976839 / 2 ^ 49) / (6702415097976839 / 2 ^ 48)) = 1 / 2"
    using round64_exact [of 1 "- 1"] by (simp add: powr_minus)
  have a2: "round64 ((189 / 2) / (6702415097976839 / 2 ^ 48)) = 8936553463969118 / 2 ^ 51"
    using round64_eval_div [of "(189 / 2) / (6702415097976839 / 2 ^ 48)" 51 8936553463969118]
    by simp
  have r2: "round64 ((8936553463969118 / 2 ^ 51) / (8936553463969119 / 2 ^ 50))
             = 9007199254740991 / 2 ^ 54"
    using round64_eval_div [of "(8936553463969118 / 2 ^ 51) / (8936553463969119 / 2 ^ 50)" 54
        9007199254740991]
    by simp
  have "corr_quotient (189 / 2) (8936553463969119 / 2 ^ 50) (6702415097976839 / 2 ^ 48)
          = Fin (min 1 (max (- 1) (round64 (round64 ((189 / 2) / (8936553463969119 / 2 ^ 50))
                                            / (6702415097976839 / 2 ^ 48)))))"
    by (rule corr_quotient_finite) simp_all
  also have "\<dots> = Fin (1 / 2)"
    unfolding a1 r1 by simp
  finally show "np_corrcoef [12, 0, 15] [0, 9, 45] = Fin (1 / 2)"
    by (simp add: np_corrcoef_def cva sv sa)
  have "corr_quotient (189 / 2) (6702415097976839 / 2 ^ 48) (8936553463969119 / 2 ^ 50)
          = Fin (min 1 (max (- 1) (round64 (round64 ((189 / 2) / (6702415097976839 / 2 ^ 48))
                                            / (8936553463969119 / 2 ^ 50)))))"
    by (rule corr_quotient_finite) simp_all
  also have "\<dots> = Fin (9007199254740991 / 2 ^ 54)"
    unfolding a2 r2 by simp
  finally show "np_corrcoef [0, 9, 45] [12, 0, 15] = Fin (9007199254740991 / 2 ^ 54)"
    by (simp add: np_corrcoef_def cav sv sa)
qed

lemma p_value_three_pairs:
  assumes "0 \<le> r" "r \<le> 1 / 2"
  shows "estimate_p_value (Fin r) 3 = NotSignificant"
proof -
  have t: "t_statistic (Fin r) 3 = Fin (\<bar>r\<bar> * sqrt ((real 3 - 2) / (1 - r\<^sup>2)))"
    using assms by (intro t_statistic_inner) simp_all
  have "r\<^sup>2 \<le> (1 / 2)\<^sup>2"
    using assms by (intro power_mono) simp_all
  then have "3 / 4 \<le> 1 - r\<^sup>2"
    by (simp add: power2_eq_square)
  then have "1 / (1 - r\<^sup>2) \<le> 2\<^sup>2"
    by (simp add: field_simps)
  then have root: "sqrt (1 / (1 - r\<^sup>2)) \<le> 2"
    by (intro real_le_lsqrt) simp_all
  have "0 \<le> sqrt (1 / (1 - r\<^sup>2))"
    using \<open>3 / 4 \<le> 1 - r\<^sup>2\<close> by simp
  then have "r * sqrt (1 / (1 - r\<^sup>2)) \<le> (1 / 2) * 2"
    using assms root by (intro mult_mono) simp_all
  then have "\<bar>r\<bar> * sqrt ((real 3 - 2) / (1 - r\<^sup>2)) \<le> 1"
    using assms(1) by simp
  then show ?thesis
    unfolding estimate_p_value_def t by simp
qed

lemma volume_activity_records:
  "calculate_correlation no_float_text
     \<lparr>time_col = [Some 0, Some 1, Some 2],
      activity_col = ActivityFloat [Some 0, Some 9, Some 45],
      volume_col = [Some 12, Some 0, Some 15]\<rparr> col_volume col_activity
   = Inr (CorrOk \<lparr>cr_col1 = col_volume, cr_col2 = col_activity, cr_r = Fin (1 / 2),
                  cr_strength = Moderate, cr_interpretation = NoticeableDependence,
                  cr_n_pairs = 3, cr_p_value = NotSignificant\<rparr>)"
  "calculate_correlation no_float_text
     \<lparr>time_col = [Some 0, Some 1, Some 2],
      activity_col = ActivityFloat [Some 0, Some 9, Some 45],
      volume_col = [Some 12, Some 0, Some 15]\<rparr> col_activity col_volume
   = Inr (CorrOk \<lparr>cr_col1 = col_activity, cr_col2 = col_volume,
                  cr_r = Fin (9007199254740991 / 18014398509481984),
                  cr_strength = Weak, cr_interpretation = WeakDependence,
                  cr_n_pairs = 3, cr_p_value = NotSignificant\<rparr>)"
proof -
  let ?df = "\<lparr>time_col = [Some 0, Some 1, Some 2],
      activity_col = ActivityFloat [Some 0, Some 9, Some 45],
      volume_col = [Some 12, Some 0, Some (15::real)]\<rparr>"
  have dv: "corr_data ?df col_volume = Inr [NumCell 12, NumCell 0, NumCell 15]"
    by (simp add: corr_data_volume)
  have da: "corr_data ?df col_activity = Inr [NumCell 0, NumCell 9, NumCell 45]"
    by (simp add: corr_data_activity)
  have sva: "series_corr no_float_text [NumCell 12, NumCell 0, NumCell 15]
               [NumCell 0, NumCell 9, NumCell 45] = Inr (Fin (1 / 2))"
    by (simp add: series_corr_def corrcoef_volume_activity)
  have sav: "series_corr no_float_text [NumCell 0, NumCell 9, NumCell 45]
               [NumCell 12, NumCell 0, NumCell 15]
               = Inr (Fin (9007199254740991 / 18014398509481984))"
    using corrcoef_volume_activity(2) by (simp add: series_corr_def)
  have p1: "estimate_p_value (Fin (1 / 2)) (Suc (Suc (Suc 0))) = NotSignificant"
    using p_value_three_pairs [of "1 / 2"] by (simp add: numeral_3_eq_3)
  have p2: "estimate_p_value (Fin (9007199254740991 / 18014398509481984)) (Suc (Suc (Suc 0)))
              = NotSignificant"
    using p_value_three_pairs [of "9007199254740991 / 18014398509481984"]
    by (simp add: numeral_3_eq_3)
  show "calculate_correlation no_float_text ?df col_volume col_activity
   = Inr (CorrOk \<lparr>cr_col1 = col_volume, cr_col2 = col_activity, cr_r = Fin (1 / 2),
                  cr_strength = Moderate, cr_interpretation = NoticeableDependence,
                  cr_n_pairs = 3, cr_p_value = NotSignificant\<rparr>)"
    by (simp add: calculate_correlation_def correlation_body_def col_names_distinct dv da
        clean_pairs_def sva p1 interpret_correlation_def get_correlation_interpretation_def)
  show "calculate_correlation no_float_text ?df col_activity col_volume
   = Inr (CorrOk \<lparr>cr_col1 = col_activity, cr_col2 = col_volume,
                  cr_r = Fin (9007199254740991 / 18014398509481984),
                  cr_strength = Weak, cr_interpretation = WeakDependence,
                  cr_n_pairs = 3, cr_p_value = NotSignificant\<rparr>)"
    by (simp add: calculate_correlation_def correlation_body_def col_names_distinct dv da
        clean_pairs_def sav p2 interpret_correlation_def get_correlation_interpretation_def)
qed

text \<open>
  C4 as stated fails on a frame of three rows with volume \<open>[12, 0, 15]\<close> and a numeric
  second column \<open>[0, 9, 45]\<close>: the coefficient is 0.5 for (volume, activity) and
  0.49999999999999994 for (activity, volume), and the strength label differs with it.
\<close>

theorem coefficient_depends_on_order:
  "calculate_correlation no_float_text
     \<lparr>time_col = [Some 0, Some 1, Some 2],
      activity_col = ActivityFloat [Some 0, Some 9, Some 45],
      volume_col = [Some 12, Some 0, Some 15]\<rparr> col_volume col_activity
   = Inr (CorrOk \<lparr>cr_col1 = col_volume, cr_col2 = col_activity, cr_r = Fin (1 / 2),
                  cr_strength = Moderate, cr_interpretation = NoticeableDependence,
                  cr_n_pairs = 3, cr_p_value = NotSignificant\<rparr>)
   \<and> calculate_correlation no_float_text
     \<lparr>time_col = [Some 0, Some 1, Some 2],
      activity_col = ActivityFloat [Some 0, Some 9, Some 45],
      volume_col = [Some 12, Some 0, Some 15]\<rparr> col_activity col_volume
   = Inr (CorrOk \<lparr>cr_col1 = col_activity, cr_col2 = col_volume,
                  cr_r = Fin (9007199254740991 / 18014398509481984),
                  cr_strength = Weak, cr_interpretation = WeakDependence,
                  cr_n_pairs = 3, cr_p_value = NotSignificant\<rparr>)
   \<and> Fin (1 / 2) \<noteq> Fin (9007199254740991 / 18014398509481984)"
  using volume_activity_records by simp

text \<open>
  C4, amended. Whenever \<^verbatim>\<open>calculate_correlation\<close> returns a full record for the columns
  \<open>(a, b)\<close>, it returns a full record for \<open>(b, a)\<close> over the same number of pairs, with the
  two names exchanged; the time column is encoded by the same function (\<open>corr_data\<close>) in
  either position. The two Pearson coefficients are the same covariance divided by the same
  two deviations in opposite order: they are both nan, or both numbers that differ by at
  most \<open>2\<^sup>-\<^sup>4\<^sup>9\<close> (about 1.8e-15), and need not be equal.
\<close>

theorem correlation_symmetric:
  assumes "calculate_correlation parse df a b = Inr (CorrOk ra)"
  shows "\<exists>rb. calculate_correlation parse df b a = Inr (CorrOk rb)
           \<and> cr_n_pairs rb = cr_n_pairs ra
           \<and> cr_col1 rb = b \<and> cr_col2 rb = a
           \<and> (cr_r rb = cr_r ra
               \<or> (\<exists>x y. cr_r ra = Fin x \<and> cr_r rb = Fin y \<and> \<bar>x - y\<bar> \<le> 1 / 2 ^ 49))"
proof -
  from assms have body: "correlation_body parse df a b = Inr (CorrOk ra)"
    by (auto simp: calculate_correlation_def split: sum.splits)
  from body have names: "a \<noteq> []" "b \<noteq> []"
    by (auto simp: correlation_body_def split: if_splits)
  from body names obtain d1 d2
    where d1: "corr_data df a = Inr d1" and d2: "corr_data df b = Inr d2"
    by (auto simp: correlation_body_def split: sum.splits)
  let ?c1 = "map fst (clean_pairs d1 d2)" and ?c2 = "map snd (clean_pairs d1 d2)"
  from body names have len: "\<not> length ?c1 < 2"
    by (auto simp: correlation_body_def d1 d2 Let_def split: if_splits)
  from body names len obtain r where r: "series_corr parse ?c1 ?c2 = Inr r"
    by (auto simp: correlation_body_def d1 d2 Let_def split: sum.splits)
  from body names len r have ra: "ra = \<lparr> cr_col1 = a, cr_col2 = b, cr_r = r,
        cr_strength = interpret_correlation r,
        cr_interpretation = get_correlation_interpretation r,
        cr_n_pairs = length ?c1,
        cr_p_value = estimate_p_value r (length ?c1) \<rparr>"
    by (simp add: correlation_body_def d1 d2 Let_def)
  from series_corr_swap [OF r] obtain r'
    where r': "series_corr parse ?c2 ?c1 = Inr r'"
      and close: "r' = r \<or> (\<exists>x y. r = Fin x \<and> r' = Fin y \<and> \<bar>x - y\<bar> \<le> 1 / 2 ^ 49)"
    by blast
  have "correlation_body parse df b a = Inr (CorrOk \<lparr> cr_col1 = b, cr_col2 = a, cr_r = r',
        cr_strength = interpret_correlation r',
        cr_interpretation = get_correlation_interpretation r',
        cr_n_pairs = length ?c1,
        cr_p_value = estimate_p_value r' (length ?c1) \<rparr>)"
    using names len r'
    by (simp add: correlation_body_def d1 d2 Let_def clean_pairs_fst_snd [of d2 d1])
  then show ?thesis
    unfolding ra using close by (simp add: calculate_correlation_def)
qed

theorem correlation_symmetric_witness:
  "calculate_correlation no_float_text
     \<lparr>time_col = [Some 0, Some 1, Some 2],
      activity_col = ActivityFloat [Some 0, Some 9, Some 45],
      volume_col = [Some 12, Some 0, Some 15]\<rparr> col_volume col_activity
   = Inr (CorrOk \<lparr>cr_col1 = col_volume, cr_col2 = col_activity, cr_r = Fin (1 / 2),
                  cr_strength = Moderate, cr_interpretation = NoticeableDependence,
                  cr_n_pairs = 3, cr_p_value = NotSignificant\<rparr>)
   \<and> (\<exists>rb. calculate_correlation no_float_text
     \<lparr>time_col = [Some 0, Some 1, Some 2],
      activity_col = ActivityFloat [Some 0, Some 9, Some 45],
      volume_col = [Some 12, Some 0, Some 15]\<rparr> col_activity col_volume = Inr (CorrOk rb)
        \<and> cr_n_pairs rb = 3 \<and> cr_col1 rb = col_activity \<and> cr_col2 rb = col_volume
        \<and> (cr_r rb = Fin (1 / 2)
            \<or> (\<exists>y. cr_r rb = Fin y \<and> \<bar>1 / 2 - y\<bar> \<le> 1 / 2 ^ 49)))"
proof -
  let ?df = "\<lparr>time_col = [Some 0, Some 1, Some 2],
      activity_col = ActivityFloat [Some 0, Some 9, Some 45],
      volume_col = [Some 12, Some 0, Some (15::real)]\<rparr>"
  let ?ra = "\<lparr>cr_col1 = col_volume, cr_col2 = col_activity, cr_r = Fin (1 / 2),
                  cr_strength = Moderate, cr_interpretation = NoticeableDependence,
                  cr_n_pairs = 3, cr_p_value = NotSignificant\<rparr>"
  have fwd: "calculate_correlation no_float_text ?df col_volume col_activity = Inr (CorrOk ?ra)"
    by (rule volume_activity_records(1))
  from correlation_symmetric [OF fwd] obtain rb
    where rb: "calculate_correlation no_float_text ?df col_activity col_volume = Inr (CorrOk rb)"
      and n: "cr_n_pairs rb = cr_n_pairs ?ra"
      and c: "cr_col1 rb = col_activity" "cr_col2 rb = col_volume"
      and r: "cr_r rb = cr_r ?ra
              \<or> (\<exists>x y. cr_r ?ra = Fin x \<and> cr_r rb = Fin y \<and> \<bar>x - y\<bar> \<le> 1 / 2 ^ 49)"
    by blast
  have ra: "cr_r ?ra = Fin (1 / 2)"
    by simp
  from r have "cr_r rb = Fin (1 / 2)
            \<or> (\<exists>y. cr_r rb = Fin y \<and> \<bar>1 / 2 - y\<bar> \<le> 1 / 2 ^ 49)"
    unfolding ra by (metis npfloat.inject)
  with rb n c have "\<exists>rb. calculate_correlation no_float_text ?df col_activity col_volume
        = Inr (CorrOk rb)
        \<and> cr_n_pairs rb = 3 \<and> cr_col1 rb = col_activity \<and> cr_col2 rb = col_volume
        \<and> (cr_r rb = Fin (1 / 2)
            \<or> (\<exists>y. cr_r rb = Fin y \<and> \<bar>1 / 2 - y\<bar> \<le> 1 / 2 ^ 49))"
    by (intro exI [of _ rb]) simp
  with fwd show ?thesis
    by blast
qed

subsection \<open>Correlation: too few pairs\<close>

text \<open>Fewer than two rows pass the mask: the error record, whatever the columns hold.\<close>

lemma masked_pairs_below_two:
  assumes "col1 \<noteq> []" "col2 \<noteq> []"
    and "corr_data df col1 = Inr data1" "corr_data df col2 = Inr data2"
    and "length (clean_pairs data1 data2) < 2"
  shows "calculate_correlation parse df col1 col2 = Inr (CorrError NotEnoughData)"
  using assms by (simp add: calculate_correlation_def correlation_body_def Let_def)

text \<open>The coefficient of the epoch and a missing timestamp against the volumes 1 and 2.\<close>

lemma corrcoef_epoch_and_NaT:
  "np_corrcoef [0, - 9223372036854775808] [1, 2] = Fin (- (9007199254740991 / 2 ^ 53))"
proof -
  have cxx: "covariance [0, - 9223372036854775808] [0, - 9223372036854775808]
               = 42535295865117307932921825928971026432"
    and cyy: "covariance [1, 2] [1, 2] = 1 / 2"
    and cxy: "covariance [0, - 9223372036854775808] [1, 2] = - 4611686018427387904"
    by (simp_all add: covariance_def series_mean_def)
  have sx: "stddev [0, - 9223372036854775808] = 6369051672525773 * 2 ^ 10"
    unfolding stddev_def cxx
    using round64_sqrt_mul [of 42535295865117307932921825928971026432 6369051672525773 10]
    by simp
  have sy: "stddev [1, 2] = 6369051672525773 / 2 ^ 53"
    unfolding stddev_def cyy
    using round64_sqrt_div [of "1 / 2" 6369051672525773 53] by simp
  have b1: "round64 (- 4611686018427387904 / (6369051672525773 * 2 ^ 10))
              = - 6369051672525772 / 2 ^ 53"
    using round64_eval_div [of "- 4611686018427387904 / (6369051672525773 * 2 ^ 10)" 53
        "- 6369051672525772"]
    by simp
  have q: "round64 ((- 6369051672525772 / 2 ^ 53) / (6369051672525773 / 2 ^ 53))
              = - 9007199254740991 / 2 ^ 53"
    using round64_eval_div [of "(- 6369051672525772 / 2 ^ 53) / (6369051672525773 / 2 ^ 53)" 53
        "- 9007199254740991"]
    by simp
  have "corr_quotient (- 4611686018427387904) (6369051672525773 * 2 ^ 10)
            (6369051672525773 / 2 ^ 53)
          = Fin (min 1 (max (- 1)
              (round64 (round64 (- 4611686018427387904 / (6369051672525773 * 2 ^ 10))
                          / (6369051672525773 / 2 ^ 53)))))"
    by (rule corr_quotient_finite) simp_all
  also have "\<dots> = Fin (- (9007199254740991 / 2 ^ 53))"
    unfolding b1 q by simp
  finally show ?thesis
    by (simp add: np_corrcoef_def cxy sx sy)
qed

text \<open>
  C5. With fewer than two rows holding a value in both columns the result should be the
  error record. The frame below has two rows; the second has no timestamp, so one row holds
  both values. The time column is encoded by \<^verbatim>\<open>pd.to_numeric\<close>, which turns the missing
  timestamp into the smallest int64; the mask keeps both rows and the function returns a
  full record: coefficient \<open>-0.9999999999999999\<close>, the strongest label, two pairs.
\<close>

theorem missing_timestamp_counted_as_pair:
  "calculate_correlation parse
     \<lparr>time_col = [Some 0, None],
      activity_col = ActivityObject [StrCell ''walk'', StrCell ''rest''],
      volume_col = [Some 1, Some 2]\<rparr> col_time col_volume
   = Inr (CorrOk \<lparr>cr_col1 = col_time, cr_col2 = col_volume,
                  cr_r = Fin (- (9007199254740991 / 9007199254740992)),
                  cr_strength = VeryStrong, cr_interpretation = NearlyLinear,
                  cr_n_pairs = 2, cr_p_value = InsufficientPairs\<rparr>)"
proof -
  let ?df = "\<lparr>time_col = [Some 0, None],
      activity_col = ActivityObject [StrCell ''walk'', StrCell ''rest''],
      volume_col = [Some 1, Some (2::real)]\<rparr>"
  have d1: "corr_data ?df col_time = Inr [NumCell 0, NumCell (- 9223372036854775808)]"
    by (simp add: corr_data_time to_numeric_datetime_def iNaT_def)
  have d2: "corr_data ?df col_volume = Inr [NumCell 1, NumCell 2]"
    by (simp add: corr_data_volume)
  have cp: "clean_pairs [NumCell 0, NumCell (- 9223372036854775808)] [NumCell 1, NumCell 2]
              = [(NumCell 0, NumCell 1), (NumCell (- 9223372036854775808), NumCell 2)]"
    by (simp add: clean_pairs_def)
  have sc: "series_corr parse [NumCell 0, NumCell (- 9223372036854775808)] [NumCell 1, NumCell 2]
              = Inr (Fin (- (9007199254740991 / 9007199254740992)))"
    using corrcoef_epoch_and_NaT by (simp add: series_corr_def)
  show ?thesis
    by (simp add: calculate_correlation_def correlation_body_def col_names_distinct d1 d2 cp sc
        interpret_correlation_def get_correlation_interpretation_def estimate_p_value_def)
qed

subsection \<open>Correlation: no exception leaves the function\<close>

text \<open>
  C10. \<^verbatim>\<open>calculate_correlation\<close> always returns a value: whatever is raised inside its
  \<^verbatim>\<open>try\<close> block comes back as the error record carrying the text of that exception, and a
  column name that is empty gives the error record for unselected columns.
\<close>

theorem correlation_never_raises:
  "(\<exists>res. calculate_correlation parse df col1 col2 = Inr res)
   \<and> (\<forall>e. correlation_body parse df col1 col2 = Inl e \<longrightarrow>
          calculate_correlation parse df col1 col2 = Inr (CorrError (ExceptionText e)))
   \<and> (col1 = [] \<or> col2 = [] \<longrightarrow>
          calculate_correlation parse df col1 col2 = Inr (CorrError NoColumnsSelected))"
  by (auto simp: calculate_correlation_def correlation_body_def split: sum.splits)

theorem correlation_never_raises_witness:
  "correlation_body (\<lambda>t. None)
     \<lparr>time_col = [Some 0, Some 1],
      activity_col = ActivityObject [StrCell ''walk'', StrCell ''rest''],
      volume_col = [Some 1, Some 2]\<rparr> ''x'' col_volume = Inl (KeyError ''x'')
   \<and> calculate_correlation (\<lambda>t. None)
     \<lparr>time_col = [Some 0, Some 1],
      activity_col = ActivityObject [StrCell ''walk'', StrCell ''rest''],
      volume_col = [Some 1, Some 2]\<rparr> ''x'' col_volume
       = Inr (CorrError (ExceptionText (KeyError ''x'')))
   \<and> correlation_body (\<lambda>t. None)
     \<lparr>time_col = [Some 0, Some 1],
      activity_col = ActivityObject [StrCell ''walk'', StrCell ''rest''],
      volume_col = [Some 1, Some 2]\<rparr> col_activity col_volume = Inl (ValueError ''walk'')
   \<and> calculate_correlation (\<lambda>t. None)
     \<lparr>time_col = [Some 0, Some 1],
      activity_col = ActivityObject [StrCell ''walk'', StrCell ''rest''],
      volume_col = [Some 1, Some 2]\<rparr> col_activity col_volume
       = Inr (CorrError (ExceptionText (ValueError ''walk'')))
   \<and> calculate_correlation (\<lambda>t. None)
     \<lparr>time_col = [Some 0, Some 1],
      activity_col = ActivityObject [StrCell ''walk'', StrCell ''rest''],
      volume_col = [Some 1, Some 2]\<rparr> [] col_volume
       = Inr (CorrError NoColumnsSelected)"
proof -
  let ?df = "\<lparr>time_col = [Some 0, Some 1],
      activity_col = ActivityObject [StrCell ''walk'', StrCell ''rest''],
      volume_col = [Some 1, Some (2::real)]\<rparr>"
  have x: "''x'' \<noteq> col_time" "''x'' \<noteq> col_activity" "''x'' \<noteq> col_volume"
    by (simp_all add: col_volume_def col_time_def col_activity_def)
  have k: "correlation_body (\<lambda>t. None) ?df ''x'' col_volume = Inl (KeyError ''x'')"
    by (simp add: correlation_body_def corr_data_def getitem_def x col_names_distinct)
  have v: "correlation_body (\<lambda>t. None) ?df col_activity col_volume = Inl (ValueError ''walk'')"
    by (simp add: correlation_body_def corr_data_activity corr_data_volume col_names_distinct
        clean_pairs_def series_corr_def)
  show ?thesis
    using k v
      correlation_never_raises [of "\<lambda>t. None" ?df "''x''" col_volume]
      correlation_never_raises [of "\<lambda>t. None" ?df col_activity col_volume]
      correlation_never_raises [of "\<lambda>t. None" ?df "[]" col_volume]
    by simp
qed

subsection \<open>Degenerate cases: zero mean, constant test labels\<close>





text \<open>
  Three equal labels 0.1 (the float64 nearest to one tenth): the computed mean is one unit
  in the last place above the labels, so the computed total sum of squares is not 0 and
  \<^verbatim>\<open>r2_score\<close> takes its ordinary branch.
\<close>

lemma tenth_total:
  "ss_tot [7205759403792794 / 2 ^ 56, 7205759403792794 / 2 ^ 56, 7205759403792794 / 2 ^ 56]
     = 3 / 2 ^ 112"
proof -
  let ?d = "7205759403792794 / 2 ^ 56 :: real"
  have d: "round64 ?d = ?d"
    using round64_exact [of 7205759403792794 "- 56"] by (simp add: powr_minus powr_numeral)
  have d2: "round64 (?d + ?d) = 7205759403792794 / 2 ^ 55"
    using round64_exact [of 7205759403792794 "- 55"] by (simp add: powr_minus powr_numeral)
  have d3: "round64 (7205759403792794 / 2 ^ 55 + ?d) = 5404319552844596 / 2 ^ 54"
    using round64_tie_div [of "7205759403792794 / 2 ^ 55 + ?d" 54 5404319552844595] by simp
  have sum: "fl_sum [?d, ?d, ?d] = 5404319552844596 / 2 ^ 54"
    unfolding fl_sum_simps d d2 d3 ..
  have mean: "fl_mean [?d, ?d, ?d] = 7205759403792795 / 2 ^ 56"
    unfolding fl_mean_def sum fl_div_def
    using round64_eval_div [of "5404319552844596 / 2 ^ 54 / 3" 56 7205759403792795] by simp
  have dev: "fl_sub ?d (7205759403792795 / 2 ^ 56) = - 1 / 2 ^ 56"
    unfolding fl_sub_def using round64_exact [of "- 1" "- 56"]
    by (simp add: powr_minus powr_numeral)
  have sq: "fl_mul (- 1 / 2 ^ 56) (- 1 / 2 ^ 56) = 1 / 2 ^ 112"
    unfolding fl_mul_def using round64_exact [of 1 "- 112"]
    by (simp add: powr_minus powr_numeral)
  have s1: "round64 (1 / 2 ^ 112) = 1 / 2 ^ 112"
    using round64_exact [of 1 "- 112"] by (simp add: powr_minus powr_numeral)
  have s2: "round64 (1 / 2 ^ 112 + 1 / 2 ^ 112) = 2 / 2 ^ 112"
    using round64_exact [of 1 "- 111"] by (simp add: powr_minus powr_numeral)
  have s3: "round64 (2 / 2 ^ 112 + 1 / 2 ^ 112) = 3 / 2 ^ 112"
    using round64_exact [of 3 "- 112"] by (simp add: powr_minus powr_numeral)
  show ?thesis
    unfolding ss_tot_def mean list.map dev sq fl_sum_simps s1 s2 s3 ..
qed




subsection \<open>Variance and standard deviation\<close>

text \<open>
  C8 as stated fails on a column with a single value: \<^verbatim>\<open>calculate_statistics\<close> returns a
  summary, whose variance and standard deviation are nan.
\<close>

theorem single_value_variance_nan:
  "calculate_statistics
     \<lparr>time_col = [Some 0], activity_col = ActivityObject [StrCell ''walk''],
      volume_col = [Some 5]\<rparr> col_volume = Inr (summary [5])
   \<and> st_count (summary [5]) = 1
   \<and> st_variance (summary [5]) = NaN
   \<and> st_std (summary [5]) = NaN"
  by (simp add: calculate_statistics_def in_columns_def getitem_def col_names_distinct
      summary_def Let_def series_var_def series_std_def)

text \<open>
  C8, amended. For a numeric column with the non-missing values \<open>data\<close>: with two or more
  values the summary has the variance with Bessel's correction, the sum of the squared
  deviations from the mean divided by \<open>n - 1\<close>, and its square root as standard deviation;
  with exactly one value the computation succeeds and both are nan; with no value the
  computation fails.
\<close>

theorem variance_bessel:
  assumes "getitem df column = Some (FloatSeries vs)"
    and "data = map the (filter (\<lambda>v. v \<noteq> None) vs)"
  shows "(2 \<le> length data \<longrightarrow>
           (\<exists>s. calculate_statistics df column = Inr s
              \<and> st_variance s =
                  Fin ((\<Sum>x\<leftarrow>data. (x - sum_list data / real (length data))\<^sup>2)
                         / (real (length data) - 1))
              \<and> st_std s =
                  Fin (sqrt ((\<Sum>x\<leftarrow>data. (x - sum_list data / real (length data))\<^sup>2)
                         / (real (length data) - 1)))))
       \<and> (length data = 1 \<longrightarrow>
           (\<exists>s. calculate_statistics df column = Inr s
              \<and> st_variance s = NaN \<and> st_std s = NaN))
       \<and> (length data = 0 \<longrightarrow> calculate_statistics df column = Inl NoData)"
proof (intro conjI impI)
  assume two: "2 \<le> length data"
  then have ne: "filter (\<lambda>v. v \<noteq> None) vs \<noteq> []"
    using assms(2) by auto
  have run: "calculate_statistics df column = Inr (summary data)"
    using statistics_float_column [OF assms(1)] ne assms(2) by simp
  have nonneg: "0 \<le> (\<Sum>x\<leftarrow>data. (x - sum_list data / real (length data))\<^sup>2)
                         / (real (length data) - 1)"
    using two by (intro divide_nonneg_nonneg sum_list_nonneg) auto
  have v: "st_variance (summary data) =
      Fin ((\<Sum>x\<leftarrow>data. (x - sum_list data / real (length data))\<^sup>2) / (real (length data) - 1))"
    using two by (simp add: summary_def Let_def series_var_def central_sum_def series_mean_def
        of_nat_diff)
  have "st_std (summary data) = np_sqrt (st_variance (summary data))"
    by (simp add: summary_def Let_def series_std_def)
  then have "st_std (summary data) =
      Fin (sqrt ((\<Sum>x\<leftarrow>data. (x - sum_list data / real (length data))\<^sup>2)
                   / (real (length data) - 1)))"
    using nonneg unfolding v by simp
  with run v show "\<exists>s. calculate_statistics df column = Inr s
              \<and> st_variance s =
                  Fin ((\<Sum>x\<leftarrow>data. (x - sum_list data / real (length data))\<^sup>2)
                         / (real (length data) - 1))
              \<and> st_std s =
                  Fin (sqrt ((\<Sum>x\<leftarrow>data. (x - sum_list data / real (length data))\<^sup>2)
                         / (real (length data) - 1)))"
    by blast
next
  assume one: "length data = 1"
  then have ne: "filter (\<lambda>v. v \<noteq> None) vs \<noteq> []"
    using assms(2) by auto
  have run: "calculate_statistics df column = Inr (summary data)"
    using statistics_float_column [OF assms(1)] ne assms(2) by simp
  have "st_variance (summary data) = NaN" "st_std (summary data) = NaN"
    using one by (simp_all add: summary_def Let_def series_var_def series_std_def)
  with run show "\<exists>s. calculate_statistics df column = Inr s
              \<and> st_variance s = NaN \<and> st_std s = NaN"
    by blast
next
  assume "length data = 0"
  then have "filter (\<lambda>v. v \<noteq> None) vs = []"
    using assms(2) by simp
  then show "calculate_statistics df column = Inl NoData"
    using statistics_float_column [OF assms(1)] by simp
qed

theorem variance_bessel_witness:
  "getitem \<lparr>time_col = [Some 0, Some 1], activity_col = ActivityObject [NaCell, NaCell],
            volume_col = [Some 1, Some 3]\<rparr> col_volume = Some (FloatSeries [Some 1, Some 3])
   \<and> (2::nat) \<le> length [1, 3 :: real]
   \<and> (\<exists>s. calculate_statistics
              \<lparr>time_col = [Some 0, Some 1], activity_col = ActivityObject [NaCell, NaCell],
               volume_col = [Some 1, Some 3]\<rparr> col_volume = Inr s
          \<and> st_variance s = Fin 2 \<and> st_std s = Fin (sqrt 2))
   \<and> length [5 :: real] = 1
   \<and> (\<exists>s. calculate_statistics
              \<lparr>time_col = [Some 0], activity_col = ActivityObject [NaCell],
               volume_col = [Some 5]\<rparr> col_volume = Inr s
          \<and> st_variance s = NaN \<and> st_std s = NaN)
   \<and> length ([] :: real list) = 0
   \<and> calculate_statistics
        \<lparr>time_col = [Some 0], activity_col = ActivityObject [NaCell],
         volume_col = [None]\<rparr> col_volume = Inl NoData"
proof -
  have g: "getitem \<lparr>time_col = ts, activity_col = a, volume_col = vs\<rparr> col_volume
             = Some (FloatSeries vs)" for ts a vs
    by (simp add: getitem_def col_names_distinct)
  have two: "\<exists>s. calculate_statistics
              \<lparr>time_col = [Some 0, Some 1], activity_col = ActivityObject [NaCell, NaCell],
               volume_col = [Some 1, Some 3]\<rparr> col_volume = Inr s
          \<and> st_variance s = Fin 2 \<and> st_std s = Fin (sqrt 2)"
    using variance_bessel [OF g [of "[Some 0, Some 1]" "ActivityObject [NaCell, NaCell]"
          "[Some 1, Some 3]"] refl]
    by (simp add: power2_eq_square)
  have one: "\<exists>s. calculate_statistics
              \<lparr>time_col = [Some 0], activity_col = ActivityObject [NaCell],
               volume_col = [Some 5]\<rparr> col_volume = Inr s
          \<and> st_variance s = NaN \<and> st_std s = NaN"
    using variance_bessel [OF g [of "[Some 0]" "ActivityObject [NaCell]" "[Some 5]"] refl]
    by simp
  have none: "calculate_statistics
        \<lparr>time_col = [Some 0], activity_col = ActivityObject [NaCell],
         volume_col = [None]\<rparr> col_volume = Inl NoData"
    using variance_bessel [OF g [of "[Some 0]" "ActivityObject [NaCell]" "[None]"] refl]
    by simp
  show ?thesis
    using g two one none by simp
qed

end
